theory Spec2Isabelle
  imports Main "HOL-Library.Sublist"
begin

section \<open>JavaScript values\<close>

text \<open>
  The resume is arbitrary parsed JSON, so the code's values are modelled by a JSON
  datatype; \<open>undefined\<close> is \<open>None\<close> of \<open>json option\<close>. Objects are association
  lists read with \<open>map_of\<close>. Strings are \<open>string\<close>; a character outside ASCII stands
  as its UTF-8 bytes.

  A number is kept as what this code can observe of it: whether it is falsy (zero or
  NaN), and the text a template literal prints for it (\<open>42\<close>, \<open>1.5\<close>, \<open>1e+21\<close>).
\<close>

datatype jsnumber = JsNumber (numberFalsy: bool) (numberText: string)

datatype json =
    JNull
  | JBool bool
  | JNum jsnumber
  | JStr string
  | JArr "json list"
  | JObj "(string \<times> json) list"

datatype error =
    ResumeNotFound string
  | ResumeRejected
  | SyntaxError
  | TypeError
  | RenderFailed
  | FsFailed
  | LaunchFailed
  | NewPageFailed
  | SetContentFailed
  | PdfFailed
  | CloseFailed

definition bindE :: "error + 'a \<Rightarrow> ('a \<Rightarrow> error + 'b) \<Rightarrow> error + 'b" where
  "bindE m f = (case m of Inl e \<Rightarrow> Inl e | Inr x \<Rightarrow> f x)"

text \<open>\<open>typeof v\<close>.\<close>

fun typeof :: "json option \<Rightarrow> string" where
  "typeof None = ''undefined''"
| "typeof (Some JNull) = ''object''"
| "typeof (Some (JBool b)) = ''boolean''"
| "typeof (Some (JNum n)) = ''number''"
| "typeof (Some (JStr s)) = ''string''"
| "typeof (Some (JArr xs)) = ''object''"
| "typeof (Some (JObj kvs)) = ''object''"

text \<open>The condition of \<open>if (v)\<close>, \<open>v && ...\<close> and \<open>v || ...\<close>.\<close>

fun truthy :: "json option \<Rightarrow> bool" where
  "truthy None = False"
| "truthy (Some JNull) = False"
| "truthy (Some (JBool b)) = b"
| "truthy (Some (JNum n)) = (\<not> numberFalsy n)"
| "truthy (Some (JStr s)) = (s \<noteq> [])"
| "truthy (Some (JArr xs)) = True"
| "truthy (Some (JObj kvs)) = True"

text \<open>
  Property access \<open>v.k\<close> for the keys the code reads (\<open>basics\<close>, \<open>profiles\<close>,
  \<open>phone\<close>, \<open>email\<close>, \<open>name\<close>, \<open>network\<close>, \<open>url\<close>): a TypeError on \<open>undefined\<close> and
  \<open>null\<close>, the stored value on an object, \<open>undefined\<close> on everything else.
\<close>

fun getProp :: "json option \<Rightarrow> string \<Rightarrow> error + json option" where
  "getProp None k = Inl TypeError"
| "getProp (Some JNull) k = Inl TypeError"
| "getProp (Some (JObj kvs)) k = Inr (map_of kvs k)"
| "getProp (Some v) k = Inr None"

text \<open>
  Decimal digits of a natural number: what a template literal prints for a non-negative
  integer below \<open>10^21\<close>, as a reading of \<open>Date.now()\<close> is.
\<close>

fun decimal :: "nat \<Rightarrow> string" where
  "decimal n = (if n < 10 then [''0123456789'' ! n]
                else decimal (n div 10) @ [''0123456789'' ! (n mod 10)])"

declare decimal.simps [simp del]

fun joinComma :: "string list \<Rightarrow> string" where
  "joinComma [] = []"
| "joinComma [s] = s"
| "joinComma (s # t # ss) = s @ '','' @ joinComma (t # ss)"

text \<open>The string a template literal \<open>${v}\<close> puts in for \<open>v\<close>.\<close>

fun toString :: "json \<Rightarrow> string" where
  "toString JNull = ''null''"
| "toString (JBool b) = (if b then ''true'' else ''false'')"
| "toString (JNum n) = numberText n"
| "toString (JStr s) = s"
| "toString (JArr xs) = joinComma (map (\<lambda>x. if x = JNull then [] else toString x) xs)"
| "toString (JObj kvs) = ''[object Object]''"

definition interpolate :: "json option \<Rightarrow> string" where
  "interpolate v = (case v of None \<Rightarrow> ''undefined'' | Some x \<Rightarrow> toString x)"

text \<open>
  \<open>String.prototype.toLowerCase\<close> on UTF-8 text. The ASCII capitals become the small
  letters. U+212A KELVIN SIGN (bytes E2 84 AA) becomes \<open>k\<close>; it is the only character
  outside ASCII whose lower-case form is ASCII. U+0130 (bytes C4 B0) becomes \<open>i\<close>
  followed by U+0307 (bytes CC 87). Every other character outside ASCII has a lower-case
  form outside ASCII and is left as it is here: the result can differ from the
  library's in such characters, but never in whether it equals an ASCII text, which is
  the one use the code makes of it (\<open>=== 'linkedin'\<close>, \<open>=== 'github'\<close>).
\<close>

definition lowerChar :: "char \<Rightarrow> char" where
  "lowerChar c =
     (case map_of (zip ''ABCDEFGHIJKLMNOPQRSTUVWXYZ'' ''abcdefghijklmnopqrstuvwxyz'') c of
        None \<Rightarrow> c | Some d \<Rightarrow> d)"

definition kelvinSign :: string where
  "kelvinSign = [CHR 0xE2, CHR 0x84, CHR 0xAA]"

definition capitalIWithDot :: string where
  "capitalIWithDot = [CHR 0xC4, CHR 0xB0]"

definition combiningDotAbove :: string where
  "combiningDotAbove = [CHR 0xCC, CHR 0x87]"

fun toLowerCase :: "string \<Rightarrow> string" where
  "toLowerCase [] = []"
| "toLowerCase (c # cs) =
     (if prefix kelvinSign (c # cs) then CHR ''k'' # toLowerCase (drop 2 cs)
      else if prefix capitalIWithDot (c # cs) then
        CHR ''i'' # combiningDotAbove @ toLowerCase (drop 1 cs)
      else lowerChar c # toLowerCase cs)"

section \<open>Header synthesis (export-pdf.js, lines 36-79)\<close>

text \<open>
  The callback \<open>p => p.network && p.network.toLowerCase() === target\<close>, as the
  truth value \<open>find\<close> tests. \<open>toLowerCase\<close> exists on strings only.
\<close>

definition networkIs :: "string \<Rightarrow> json \<Rightarrow> error + bool" where
  "networkIs target p =
     bindE (getProp (Some p) ''network'') (\<lambda>n.
       if \<not> truthy n then Inr False
       else (case n of
               Some (JStr s) \<Rightarrow> Inr (toLowerCase s = target)
             | _ \<Rightarrow> Inl TypeError))"

text \<open>\<open>Array.prototype.find\<close> with that callback: the first element it accepts.\<close>

fun findNetwork :: "string \<Rightarrow> json list \<Rightarrow> error + json option" where
  "findNetwork target [] = Inr None"
| "findNetwork target (p # ps) =
     (case networkIs target p of
        Inl e \<Rightarrow> Inl e
      | Inr True \<Rightarrow> Inr (Some p)
      | Inr False \<Rightarrow> findNetwork target ps)"

text \<open>\<open>basics.profiles.find(...)\<close>: only an array has \<open>find\<close>.\<close>

definition profilesFind :: "string \<Rightarrow> json option \<Rightarrow> error + json option" where
  "profilesFind target profiles =
     (case profiles of
        Some (JArr ps) \<Rightarrow> findNetwork target ps
      | _ \<Rightarrow> Inl TypeError)"

definition divider :: string where
  \<open>divider = ''<span style="margin: 0 8px; color: #999;">|</span>''\<close>

definition linkedinSegment :: "string \<Rightarrow> string" where
  \<open>linkedinSegment url =
     ''<span style="display: inline;">'' @ [CHR 0xF0, CHR 0x9F, CHR 0x94, CHR 0x97] @
     '' <a href="'' @ url @
     ''" target="_blank" style="color: #0066cc; text-decoration: none;">LinkedIn</a></span>''\<close>

definition phoneSegment :: "string \<Rightarrow> string" where
  \<open>phoneSegment phone =
     ''<span style="display: inline;">'' @ [CHR 0xF0, CHR 0x9F, CHR 0x93, CHR 0x9E] @
     '' '' @ phone @ ''</span>''\<close>

definition emailSegment :: "string \<Rightarrow> string" where
  \<open>emailSegment email =
     ''<span style="display: inline;">'' @ [CHR 0xE2, CHR 0x9C, CHR 0x89] @
     '' <a href="mailto:'' @ email @
     ''" style="color: #0066cc; text-decoration: none;">'' @ email @ ''</a></span>''\<close>

definition githubSegment :: "string \<Rightarrow> string" where
  \<open>githubSegment url =
     ''<span style="display: inline;">'' @ [CHR 0xF0, CHR 0x9F, CHR 0x92, CHR 0xBB] @
     '' <a href="'' @ url @
     ''" target="_blank" style="color: #0066cc; text-decoration: none;">GitHub</a></span>''\<close>

text \<open>The four blocks that append to \<open>contactInfo\<close>, in the order of the source.\<close>

definition addLinkedin :: "json option \<Rightarrow> string \<Rightarrow> error + string" where
  "addLinkedin basics contactInfo =
     bindE (getProp basics ''profiles'') (\<lambda>profiles.
       if truthy profiles then
         bindE (profilesFind ''linkedin'' profiles) (\<lambda>linkedin.
           if truthy linkedin then
             bindE (getProp linkedin ''url'') (\<lambda>url.
               Inr (contactInfo @ linkedinSegment (interpolate url) @ divider))
           else Inr contactInfo)
       else Inr contactInfo)"

definition addPhone :: "json option \<Rightarrow> string \<Rightarrow> error + string" where
  "addPhone basics contactInfo =
     bindE (getProp basics ''phone'') (\<lambda>phone.
       if truthy phone then Inr (contactInfo @ phoneSegment (interpolate phone) @ divider)
       else Inr contactInfo)"

definition addEmail :: "json option \<Rightarrow> string \<Rightarrow> error + string" where
  "addEmail basics contactInfo =
     bindE (getProp basics ''email'') (\<lambda>email.
       if truthy email then Inr (contactInfo @ emailSegment (interpolate email))
       else Inr contactInfo)"

definition addGithub :: "json option \<Rightarrow> string \<Rightarrow> error + string" where
  "addGithub basics contactInfo =
     bindE (getProp basics ''profiles'') (\<lambda>profiles.
       if truthy profiles then
         bindE (profilesFind ''github'' profiles) (\<lambda>github.
           if truthy github then
             bindE (getProp github ''url'') (\<lambda>url.
               Inr (contactInfo @ divider @ githubSegment (interpolate url)))
           else Inr contactInfo)
       else Inr contactInfo)"

definition contactInfo :: "json option \<Rightarrow> error + string" where
  "contactInfo basics =
     bindE (addLinkedin basics []) (\<lambda>c1.
     bindE (addPhone basics c1) (\<lambda>c2.
     bindE (addEmail basics c2) (\<lambda>c3.
     addGithub basics c3)))"

text \<open>\<open>const basics = resumeData.basics || {}\<close>.\<close>

definition basicsOf :: "json option \<Rightarrow> error + json option" where
  "basicsOf resumeData =
     bindE (getProp resumeData ''basics'') (\<lambda>b.
       if truthy b then Inr b else Inr (Some (JObj [])))"

text \<open>\<open>basics.name || ''\<close>, as the template prints it.\<close>

definition displayName :: "json option \<Rightarrow> error + string" where
  "displayName basics =
     bindE (getProp basics ''name'') (\<lambda>name.
       if truthy name then Inr (interpolate name) else Inr [])"

definition nl :: string where
  "nl = [CHR 0x0A]"

definition headerTemplate :: "string \<Rightarrow> string \<Rightarrow> string" where
  \<open>headerTemplate name contact =
     nl @ ''        <div style="font-size: 10px; text-align: center; width: 100%; padding: 10px 0; border-bottom: 1px solid #e0e0e0; color: #666;">'' @
     nl @ ''          <h1 style="margin: 0 0 8px 0; font-size: 18px; font-weight: 500; color: #333;">'' @ name @ ''</h1>'' @
     nl @ ''          <div style="font-size: 10px; color: #666;">'' @
     nl @ ''            '' @ contact @
     nl @ ''          </div>'' @
     nl @ ''        </div>'' @
     nl @ ''      ''\<close>

definition footerTemplate :: string where
  \<open>footerTemplate =
     nl @ ''        <div style="font-size: 10px; text-align: center; width: 100%; padding: 10px 0; border-top: 1px solid #e0e0e0; color: #666;">'' @
     nl @ ''          <span>Page <span class="pageNumber"></span> of <span class="totalPages"></span></span>'' @
     nl @ ''        </div>'' @
     nl @ ''      ''\<close>

text \<open>
  The header fragment of export-pdf.js: the contact strip is built first (lines 37-64),
  the name is read when the template is filled (line 74).
\<close>

definition headerFragment :: "json option \<Rightarrow> error + string" where
  "headerFragment resumeData =
     bindE (basicsOf resumeData) (\<lambda>basics.
     bindE (contactInfo basics) (\<lambda>contact.
     bindE (displayName basics) (\<lambda>name.
       Inr (headerTemplate name contact))))"

text \<open>
  The older exporter reads \<open>resumeData.basics.name\<close> with no default
  (\<open>${resumeData.basics.name} - Resume\<close>).
\<close>

definition legacyHeaderTemplate :: "string \<Rightarrow> string" where
  \<open>legacyHeaderTemplate name =
     nl @ ''        <div style="font-size: 10px; text-align: center; width: 100%; padding: 10px 0; border-bottom: 1px solid #e0e0e0; color: #666;">'' @
     nl @ ''          <span>'' @ name @ '' - Resume</span>'' @
     nl @ ''        </div>'' @
     nl @ ''      ''\<close>

definition legacyHeaderFragment :: "json option \<Rightarrow> error + string" where
  "legacyHeaderFragment resumeData =
     bindE (getProp resumeData ''basics'') (\<lambda>basics.
     bindE (getProp basics ''name'') (\<lambda>name.
       Inr (legacyHeaderTemplate (interpolate name))))"

section \<open>Suppressing the in-document header\<close>

text \<open>
  \<open>html.replace(pattern, replacement)\<close> with a string pattern: the first occurrence
  is replaced, nothing else. The replacement used here has no \<open>$\<close>, so it is put in
  as it is.
\<close>

fun replaceFirst :: "string \<Rightarrow> string \<Rightarrow> string \<Rightarrow> string" where
  "replaceFirst pat rep [] = (if pat = [] then rep else [])"
| "replaceFirst pat rep (c # cs) =
     (if prefix pat (c # cs) then rep @ drop (length pat) (c # cs)
      else c # replaceFirst pat rep cs)"

definition styleTag :: string where
  "styleTag = ''<style>''"

definition hiddenHeaderRule :: string where
  "hiddenHeaderRule = nl @ ''    .resume-header { display: none !important; }'' @ nl"

definition hiddenHeaderStyle :: string where
  "hiddenHeaderStyle = ''<style>'' @ hiddenHeaderRule"

definition htmlWithHiddenHeader :: "string \<Rightarrow> string" where
  "htmlWithHiddenHeader html = replaceFirst styleTag hiddenHeaderStyle html"

section \<open>Paths (Node's POSIX \<open>path\<close> module)\<close>

fun splitSlash :: "string \<Rightarrow> string list" where
  "splitSlash [] = [[]]"
| "splitSlash (c # cs) =
     (if c = CHR ''/'' then [] # splitSlash cs
      else (case splitSlash cs of [] \<Rightarrow> [[c]] | s # ss \<Rightarrow> (c # s) # ss))"

fun joinSlash :: "string list \<Rightarrow> string" where
  "joinSlash [] = []"
| "joinSlash [s] = s"
| "joinSlash (s # t # ss) = s @ ''/'' @ joinSlash (t # ss)"

text \<open>
  \<open>normalizeString\<close>, segment by segment: empty segments and \<open>.\<close> are dropped,
  \<open>..\<close> removes the segment before it, or stays when the path is relative and there
  is nothing to remove.
\<close>

definition normStep :: "bool \<Rightarrow> string list \<Rightarrow> string \<Rightarrow> string list" where
  "normStep allowAboveRoot res seg =
     (if seg = [] \<or> seg = ''.'' then res
      else if seg = ''..'' then
        (if res \<noteq> [] \<and> last res \<noteq> ''..'' then butlast res
         else if allowAboveRoot then res @ [''..'']
         else res)
      else res @ [seg])"

definition normalizeString :: "string \<Rightarrow> bool \<Rightarrow> string" where
  "normalizeString p allowAboveRoot =
     joinSlash (foldl (normStep allowAboveRoot) [] (splitSlash p))"

definition pathNormalize :: "string \<Rightarrow> string" where
  "pathNormalize p =
     (if p = [] then ''.''
      else
        (let isAbsolute = (hd p = CHR ''/'');
             trailingSeparator = (last p = CHR ''/'');
             q = normalizeString p (\<not> isAbsolute)
         in if q = [] then (if isAbsolute then ''/'' else if trailingSeparator then ''./'' else ''.'')
            else (if isAbsolute then ''/'' else []) @ q @ (if trailingSeparator then ''/'' else [])))"

text \<open>\<open>path.join(a, b)\<close>: the non-empty arguments joined by \<open>/\<close>, then normalised.\<close>

definition pathJoin :: "string \<Rightarrow> string \<Rightarrow> string" where
  "pathJoin a b =
     (let parts = filter (\<lambda>s. s \<noteq> []) [a, b]
      in if parts = [] then ''.'' else pathNormalize (joinSlash parts))"

text \<open>
  \<open>path.dirname(p)\<close>: trailing slashes are skipped, then the text before the last
  slash at an index of at least 1 is returned.
\<close>

definition pathDirname :: "string \<Rightarrow> string" where
  "pathDirname p =
     (if p = [] then ''.''
      else
        (let hasRoot = (hd p = CHR ''/'');
             r = dropWhile (\<lambda>c. c \<noteq> CHR ''/'') (dropWhile (\<lambda>c. c = CHR ''/'') (rev (tl p)));
             end = length r
         in if r = [] then (if hasRoot then ''/'' else ''.'')
            else if hasRoot \<and> end = 1 then ''//''
            else take end p))"

text \<open>
  The name of the transient file (generate-resume.js, lines 31-32): the template
  \<open>resume_${timestamp}.json\<close>, joined to the temporary directory.
\<close>

definition transientName :: "nat \<Rightarrow> string" where
  "transientName timestamp = ''resume_'' @ decimal timestamp @ ''.json''"

definition transientPath :: "string \<Rightarrow> nat \<Rightarrow> string" where
  "transientPath tmp timestamp = pathJoin tmp (transientName timestamp)"

section \<open>The file system, the rendering engine and the calls made\<close>

record pdf_options =
  pdfPath :: string
  pdfFormat :: string
  printBackground :: bool
  displayHeaderFooter :: bool
  pdfHeader :: "string option"
  pdfFooter :: "string option"
  pdfMargin :: "(string \<times> string) list"

datatype event =
    ExistsSync string bool
  | ReadFileSync string
  | MkdirSync string
  | WriteFileSync string string
  | UnlinkSync string
  | Render
  | Launch
  | NewPage
  | SetContent string
  | PagePdf pdf_options
  | BrowserClose
  | ConsoleLog
  | ConsoleError

text \<open>
  The state an invocation works on: regular files with their content, directories,
  the number of rendering-engine instances that are open, and the calls made so far,
  oldest first.
\<close>

record world =
  files :: "string \<rightharpoonup> string"
  dirs :: "string set"
  openBrowsers :: nat
  trace :: "event list"

text \<open>
  What the code cannot decide itself: the clock, the JSON library, the theme's
  \<open>render\<close> (\<open>index.js\<close>), whether each step of the rendering engine works
  (\<open>pdfBytes\<close> is \<open>None\<close> when the pagination or the write of the PDF fails), and the
  file system calls that the system refuses (permissions, a missing parent directory,
  a full disk).
\<close>

record env =
  dateNow :: nat
  jsonParse :: "string \<Rightarrow> json option"
  jsonStringify :: "json option \<Rightarrow> string"
  themeRender :: "json option \<Rightarrow> string option"
  launchOk :: bool
  newPageOk :: bool
  setContentOk :: "string \<Rightarrow> bool"
  pdfBytes :: "string \<Rightarrow> pdf_options \<Rightarrow> string option"
  closeOk :: bool
  refused :: "event \<Rightarrow> bool"

type_synonym 'a io = "world \<Rightarrow> (error + 'a) \<times> world"

definition returnIO :: "'a \<Rightarrow> 'a io" where
  "returnIO x w = (Inr x, w)"

definition throwIO :: "error \<Rightarrow> 'a io" where
  "throwIO e w = (Inl e, w)"

definition bindIO :: "'a io \<Rightarrow> ('a \<Rightarrow> 'b io) \<Rightarrow> 'b io" where
  "bindIO m f w = (case m w of (Inl e, w') \<Rightarrow> (Inl e, w') | (Inr x, w') \<Rightarrow> f x w')"

definition catchIO :: "'a io \<Rightarrow> (error \<Rightarrow> 'a io) \<Rightarrow> 'a io" where
  "catchIO m h w = (case m w of (Inl e, w') \<Rightarrow> h e w' | (Inr x, w') \<Rightarrow> (Inr x, w'))"

definition liftE :: "error + 'a \<Rightarrow> 'a io" where
  "liftE r w = (r, w)"

definition emit :: "event \<Rightarrow> unit io" where
  "emit ev w = (Inr (), w\<lparr>trace := trace w @ [ev]\<rparr>)"

definition pathExists :: "world \<Rightarrow> string \<Rightarrow> bool" where
  "pathExists w p = (p \<in> dom (files w) \<or> p \<in> dirs w)"

definition existsSync :: "string \<Rightarrow> bool io" where
  "existsSync p w = (Inr (pathExists w p), w\<lparr>trace := trace w @ [ExistsSync p (pathExists w p)]\<rparr>)"

definition readFileSync :: "env \<Rightarrow> string \<Rightarrow> string io" where
  "readFileSync E p =
     bindIO (emit (ReadFileSync p)) (\<lambda>_ w.
       (case files w p of
          None \<Rightarrow> (Inl FsFailed, w)
        | Some text \<Rightarrow>
            if refused E (ReadFileSync p) then (Inl FsFailed, w) else (Inr text, w)))"

text \<open>A path and the directories above it, as the prefixes that end before a slash.\<close>

definition ancestors :: "string \<Rightarrow> string list" where
  "ancestors p = [take i p. i \<leftarrow> [1..<length p], p ! i = CHR ''/''] @ [p]"

text \<open>
  \<open>fs.mkdirSync(p, { recursive: true })\<close>: the directory and the missing ones above
  it are made; it fails when one of them is a regular file or the call is refused.
\<close>

definition mkdirSync :: "env \<Rightarrow> string \<Rightarrow> unit io" where
  "mkdirSync E p =
     bindIO (emit (MkdirSync p)) (\<lambda>_ w.
       if list_ex (\<lambda>a. a \<in> dom (files w)) (ancestors p) \<or> refused E (MkdirSync p)
       then (Inl FsFailed, w)
       else (Inr (), w\<lparr>dirs := dirs w \<union> set (ancestors p)\<rparr>))"

text \<open>Writing a regular file: a directory cannot be written onto.\<close>

definition storeFile :: "string \<Rightarrow> string \<Rightarrow> unit io" where
  "storeFile p text w =
     (if p \<in> dirs w then (Inl FsFailed, w)
      else (Inr (), w\<lparr>files := (files w)(p \<mapsto> text)\<rparr>))"

definition writeFileSync :: "env \<Rightarrow> string \<Rightarrow> string \<Rightarrow> unit io" where
  "writeFileSync E p text =
     bindIO (emit (WriteFileSync p text)) (\<lambda>_.
       if refused E (WriteFileSync p text) then throwIO FsFailed else storeFile p text)"

definition unlinkSync :: "env \<Rightarrow> string \<Rightarrow> unit io" where
  "unlinkSync E p =
     bindIO (emit (UnlinkSync p)) (\<lambda>_ w.
       if files w p = None \<or> refused E (UnlinkSync p) then (Inl FsFailed, w)
       else (Inr (), w\<lparr>files := (files w)(p := None)\<rparr>))"

definition render :: "env \<Rightarrow> json option \<Rightarrow> string io" where
  "render E resumeData =
     bindIO (emit Render) (\<lambda>_.
       case themeRender E resumeData of
         None \<Rightarrow> throwIO RenderFailed
       | Some html \<Rightarrow> returnIO html)"

definition launch :: "env \<Rightarrow> unit io" where
  "launch E =
     bindIO (emit Launch) (\<lambda>_ w.
       if launchOk E then (Inr (), w\<lparr>openBrowsers := openBrowsers w + 1\<rparr>)
       else (Inl LaunchFailed, w))"

definition newPage :: "env \<Rightarrow> unit io" where
  "newPage E =
     bindIO (emit NewPage) (\<lambda>_. if newPageOk E then returnIO () else throwIO NewPageFailed)"

definition setContent :: "env \<Rightarrow> string \<Rightarrow> unit io" where
  "setContent E html =
     bindIO (emit (SetContent html)) (\<lambda>_.
       if setContentOk E html then returnIO () else throwIO SetContentFailed)"

text \<open>\<open>page.pdf(options)\<close>: the page is paginated and the bytes are written to \<open>path\<close>.\<close>

definition pagePdf :: "env \<Rightarrow> string \<Rightarrow> pdf_options \<Rightarrow> unit io" where
  "pagePdf E content opts =
     bindIO (emit (PagePdf opts)) (\<lambda>_.
       case pdfBytes E content opts of
         None \<Rightarrow> throwIO PdfFailed
       | Some bytes \<Rightarrow> storeFile (pdfPath opts) bytes)"

definition browserClose :: "env \<Rightarrow> unit io" where
  "browserClose E =
     bindIO (emit BrowserClose) (\<lambda>_ w.
       if closeOk E then (Inr (), w\<lparr>openBrowsers := openBrowsers w - 1\<rparr>)
       else (Inl CloseFailed, w))"

section \<open>The programmatic operations (generate-resume.js)\<close>

record options =
  resume :: "json option"
  outputPath :: string
  tmpDir :: "string option"

text \<open>The string held by a value whose \<open>typeof\<close> is \<open>string\<close>.\<close>

fun stringValue :: "json option \<Rightarrow> string" where
  "stringValue (Some (JStr s)) = s"
| "stringValue v = []"

text \<open>
  Lines 22-43: the resume is read from the file it names, or it is an object and is
  written to a transient file, or it is rejected. The result is \<open>resumeData\<close> and
  \<open>resumePath\<close>.
\<close>

definition loadResume :: "env \<Rightarrow> json option \<Rightarrow> string \<Rightarrow> (json option \<times> string) io" where
  "loadResume E rsm tmp =
     (if typeof rsm = ''string'' then
        (let resumePath = stringValue rsm in
         bindIO (existsSync resumePath) (\<lambda>found.
           if \<not> found then throwIO (ResumeNotFound resumePath)
           else
             bindIO (readFileSync E resumePath) (\<lambda>text.
               case jsonParse E text of
                 None \<Rightarrow> throwIO SyntaxError
               | Some resumeData \<Rightarrow> returnIO (Some resumeData, resumePath))))
      else if typeof rsm = ''object'' then
        (let timestamp = dateNow E;
             resumePath = pathJoin tmp (transientName timestamp) in
         bindIO (existsSync tmp) (\<lambda>found.
         bindIO (if \<not> found then mkdirSync E tmp else returnIO ()) (\<lambda>_.
         bindIO (writeFileSync E resumePath (jsonStringify E rsm)) (\<lambda>_.
           returnIO (rsm, resumePath)))))
      else throwIO ResumeRejected)"

text \<open>Lines 64-68: the output directory is made when it does not exist.\<close>

definition ensureOutputDir :: "env \<Rightarrow> string \<Rightarrow> unit io" where
  "ensureOutputDir E out =
     (let outputDir = pathDirname out in
      bindIO (existsSync outputDir) (\<lambda>found.
        if \<not> found then mkdirSync E outputDir else returnIO ()))"

text \<open>Lines 86-89: the transient file is removed when the resume was an object.\<close>

definition cleanupTmp :: "env \<Rightarrow> json option \<Rightarrow> string \<Rightarrow> unit io" where
  "cleanupTmp E rsm resumePath =
     (if typeof rsm = ''object'' then
        bindIO (existsSync resumePath) (\<lambda>found.
          if found then unlinkSync E resumePath else returnIO ())
      else returnIO ())"

definition plainPdfOptions :: "string \<Rightarrow> pdf_options" where
  "plainPdfOptions out =
     \<lparr>pdfPath = out, pdfFormat = ''A4'', printBackground = True,
      displayHeaderFooter = False, pdfHeader = None, pdfFooter = None,
      pdfMargin = [(''top'', ''30px''), (''bottom'', ''0px''), (''left'', ''0px''), (''right'', ''0px'')]\<rparr>"

definition bandPdfOptions :: "string \<Rightarrow> string \<Rightarrow> pdf_options" where
  "bandPdfOptions out header =
     \<lparr>pdfPath = out, pdfFormat = ''A4'', printBackground = True,
      displayHeaderFooter = True, pdfHeader = Some header, pdfFooter = Some footerTemplate,
      pdfMargin = [(''top'', ''80px''), (''bottom'', ''30px'')]\<rparr>"

definition tmpDirOf :: "options \<Rightarrow> string" where
  "tmpDirOf opts = (case tmpDir opts of None \<Rightarrow> ''/tmp'' | Some d \<Rightarrow> d)"

text \<open>The \<open>catch\<close> block of both operations: the message is printed, the error thrown again.\<close>

definition rethrow :: "error \<Rightarrow> 'a io" where
  "rethrow e = bindIO (emit ConsoleError) (\<lambda>_. throwIO e)"

text \<open>\<open>generateResumePDF\<close> of generate-resume.js: the PDF has no header or footer band.\<close>

definition generateResumePDF :: "env \<Rightarrow> options \<Rightarrow> string io" where
  "generateResumePDF E opts =
     catchIO
       (bindIO (loadResume E (resume opts) (tmpDirOf opts)) (\<lambda>(resumeData, resumePath).
        bindIO (render E resumeData) (\<lambda>html.
        bindIO (launch E) (\<lambda>_.
        bindIO (newPage E) (\<lambda>_.
        bindIO (setContent E html) (\<lambda>_.
        bindIO (ensureOutputDir E (outputPath opts)) (\<lambda>_.
        bindIO (pagePdf E html (plainPdfOptions (outputPath opts))) (\<lambda>_.
        bindIO (browserClose E) (\<lambda>_.
        bindIO (cleanupTmp E (resume opts) resumePath) (\<lambda>_.
        bindIO (emit ConsoleLog) (\<lambda>_.
          returnIO (outputPath opts))))))))))))
       rethrow"

text \<open>
  The variant of \<open>generateResumePDF\<close> with the repeating header and footer: the
  in-document header is hidden, the header fragment is built from \<open>basics\<close>.
\<close>

definition generateResumePDFBands :: "env \<Rightarrow> options \<Rightarrow> string io" where
  "generateResumePDFBands E opts =
     catchIO
       (bindIO (loadResume E (resume opts) (tmpDirOf opts)) (\<lambda>(resumeData, resumePath).
        bindIO (render E resumeData) (\<lambda>html.
        bindIO (launch E) (\<lambda>_.
        bindIO (newPage E) (\<lambda>_.
        bindIO (setContent E (htmlWithHiddenHeader html)) (\<lambda>_.
        bindIO (liftE (basicsOf resumeData)) (\<lambda>basics.
        bindIO (liftE (contactInfo basics)) (\<lambda>contact.
        bindIO (ensureOutputDir E (outputPath opts)) (\<lambda>_.
        bindIO (liftE (displayName basics)) (\<lambda>name.
        bindIO (pagePdf E (htmlWithHiddenHeader html)
                  (bandPdfOptions (outputPath opts) (headerTemplate name contact))) (\<lambda>_.
        bindIO (browserClose E) (\<lambda>_.
        bindIO (cleanupTmp E (resume opts) resumePath) (\<lambda>_.
        bindIO (emit ConsoleLog) (\<lambda>_.
          returnIO (outputPath opts)))))))))))))))
       rethrow"

text \<open>\<open>generateResumeHTML\<close> of generate-resume.js.\<close>

definition generateResumeHTML :: "env \<Rightarrow> json option \<Rightarrow> string io" where
  "generateResumeHTML E rsm =
     catchIO
       (bindIO
          (if typeof rsm = ''string'' then
             bindIO (existsSync (stringValue rsm)) (\<lambda>found.
               if \<not> found then throwIO (ResumeNotFound (stringValue rsm))
               else
                 bindIO (readFileSync E (stringValue rsm)) (\<lambda>text.
                   case jsonParse E text of
                     None \<Rightarrow> throwIO SyntaxError
                   | Some resumeData \<Rightarrow> returnIO (Some resumeData)))
           else if typeof rsm = ''object'' then returnIO rsm
           else throwIO ResumeRejected)
          (\<lambda>resumeData. render E resumeData))
       rethrow"

section \<open>Notions the properties are stated with\<close>

text \<open>An operation never fails with the error \<open>e\<close>.\<close>

definition never :: "error \<Rightarrow> 'a io \<Rightarrow> bool" where
  "never e m = (\<forall>w w'. m w \<noteq> (Inl e, w'))"

text \<open>Whatever an operation returns, the worlds before and after it are related by \<open>R\<close>.\<close>

definition always :: "(world \<Rightarrow> world \<Rightarrow> bool) \<Rightarrow> 'a io \<Rightarrow> bool" where
  "always R m = (\<forall>w r w'. m w = (r, w') \<longrightarrow> R w w')"

text \<open>
  Nothing was deleted between two worlds: every file and directory is still there, and
  no \<open>unlinkSync\<close> was called.
\<close>

definition nothingDeleted :: "world \<Rightarrow> world \<Rightarrow> bool" where
  "nothingDeleted w w' =
     ((\<forall>p. files w p \<noteq> None \<longrightarrow> files w' p \<noteq> None) \<and> dirs w \<subseteq> dirs w' \<and>
      (\<exists>evs. trace w' = trace w @ evs \<and> (\<forall>p. UnlinkSync p \<notin> set evs)))"

definition traceExtends :: "world \<Rightarrow> world \<Rightarrow> bool" where
  "traceExtends w w' = (\<exists>evs. trace w' = trace w @ evs)"

text \<open>Between two worlds calls were made, none of them \<open>page.setContent\<close>.\<close>

definition noSetContent :: "world \<Rightarrow> world \<Rightarrow> bool" where
  "noSetContent w w' = (\<exists>evs. trace w' = trace w @ evs \<and> (\<forall>c. SetContent c \<notin> set evs))"

definition isFile :: "string \<Rightarrow> world \<Rightarrow> bool" where
  "isFile p w = (files w p \<noteq> None \<and> p \<notin> dirs w)"

text \<open>A step that succeeds leaves the regular file \<open>p\<close> in place.\<close>

definition keeps :: "string \<Rightarrow> 'a io \<Rightarrow> bool" where
  "keeps p m = (\<forall>w x w'. m w = (Inr x, w') \<longrightarrow> isFile p w \<longrightarrow> isFile p w')"

text \<open>
  The calls around the PDF write: \<open>existsSync(dir)\<close> answered yes and then
  \<open>page.pdf\<close>, or \<open>existsSync(dir)\<close> answered no, then \<open>mkdirSync(dir)\<close>, then
  \<open>page.pdf\<close>.
\<close>

definition madeDirThenPdf :: "string \<Rightarrow> pdf_options \<Rightarrow> event list \<Rightarrow> bool" where
  "madeDirThenPdf dir po evs =
     (sublist [ExistsSync dir True, PagePdf po] evs \<or>
      sublist [ExistsSync dir False, MkdirSync dir, PagePdf po] evs)"

section \<open>Concrete inputs\<close>

definition sampleEnv :: env where
  "sampleEnv =
     \<lparr>dateNow = 1764000000000, jsonParse = (\<lambda>_. None), jsonStringify = (\<lambda>_. ''{}''),
      themeRender = (\<lambda>_. Some ''<html><style>h1{}</style></html>''),
      launchOk = True, newPageOk = True, setContentOk = (\<lambda>_. True),
      pdfBytes = (\<lambda>_ _. Some ''%PDF''), closeOk = True, refused = (\<lambda>_. False)\<rparr>"

text \<open>The same environment, but \<open>page.pdf\<close> fails.\<close>

definition pdfFailsEnv :: env where
  "pdfFailsEnv = sampleEnv\<lparr>pdfBytes := (\<lambda>_ _. None)\<rparr>"

definition sampleWorld :: world where
  "sampleWorld = \<lparr>files = Map.empty, dirs = {''/tmp''}, openBrowsers = 0, trace = []\<rparr>"

definition janeDoe :: json where
  "janeDoe = JObj [(''basics'', JObj [(''name'', JStr ''Jane Doe'')])]"

definition johnRoe :: json where
  "johnRoe = JObj [(''basics'', JObj [(''name'', JStr ''John Roe'')])]"

definition sampleOptions :: options where
  "sampleOptions = \<lparr>resume = Some janeDoe, outputPath = ''/out/resume.pdf'', tmpDir = None\<rparr>"

definition sampleTransient :: string where
  "sampleTransient = ''/tmp/resume_1764000000000.json''"

definition samplePdfCall :: event where
  "samplePdfCall = PagePdf (plainPdfOptions ''/out/resume.pdf'')"

text \<open>The world a successful run on the sample inputs ends in.\<close>

definition sampleWorldAfter :: world where
  "sampleWorldAfter =
     \<lparr>files = [''/out/resume.pdf'' \<mapsto> ''%PDF''], dirs = {''/out'', ''/tmp''}, openBrowsers = 0,
      trace =
        [ExistsSync ''/tmp'' True, WriteFileSync sampleTransient ''{}'', Render, Launch, NewPage,
         SetContent ''<html><style>h1{}</style></html>'',
         ExistsSync ''/out'' False, MkdirSync ''/out'', samplePdfCall,
         BrowserClose, ExistsSync sampleTransient True, UnlinkSync sampleTransient, ConsoleLog]\<rparr>"

definition linkedinEntry :: json where
  "linkedinEntry = JObj [(''network'', JStr ''LinkedIn''), (''url'', JStr ''https://linkedin.com/in/jane'')]"

definition linkedinLowerEntry :: json where
  "linkedinLowerEntry = JObj [(''network'', JStr ''linkedin''), (''url'', JStr ''https://linkedin.com/in/other'')]"

definition githubEntry :: json where
  "githubEntry = JObj [(''network'', JStr ''GitHub''), (''url'', JStr ''https://github.com/jane'')]"

definition githubUpperEntry :: json where
  "githubUpperEntry = JObj [(''network'', JStr ''GITHUB''), (''url'', JStr ''https://github.com/other'')]"

text \<open>A network name written with U+212A KELVIN SIGN in place of the letter k.\<close>

definition kelvinEntry :: json where
  "kelvinEntry =
     JObj [(''network'', JStr (''Lin'' @ kelvinSign @ ''edIn'')),
           (''url'', JStr ''https://linkedin.com/in/kelvin'')]"

section \<open>Evaluation rules\<close>

lemmas io_defs = bindIO_def returnIO_def throwIO_def catchIO_def liftE_def emit_def rethrow_def

lemmas fs_defs =
  pathExists_def existsSync_def readFileSync_def mkdirSync_def storeFile_def writeFileSync_def
  unlinkSync_def

lemmas engine_defs = render_def launch_def newPage_def setContent_def pagePdf_def browserClose_def

lemmas strip_defs =
  contactInfo_def addLinkedin_def addPhone_def addEmail_def addGithub_def bindE_def
  interpolate_def profilesFind_def networkIs_def lowerChar_def kelvinSign_def
  capitalIWithDot_def

lemmas sample_defs =
  linkedinEntry_def linkedinLowerEntry_def githubEntry_def githubUpperEntry_def kelvinEntry_def
  janeDoe_def johnRoe_def

section \<open>The contact strip\<close>



text \<open>With all four segments present the dividers stand exactly between them.\<close>

lemma contactInfo_all_segments:
  "contactInfo (Some (JObj [(''phone'', JStr ''555-0100''), (''email'', JStr ''jane@example.com''),
                            (''profiles'', JArr [githubEntry, linkedinEntry])])) =
   Inr (linkedinSegment ''https://linkedin.com/in/jane'' @ divider @
        phoneSegment ''555-0100'' @ divider @
        emailSegment ''jane@example.com'' @ divider @
        githubSegment ''https://github.com/jane'')"
  by (simp add: strip_defs sample_defs)



text \<open>
  C1. The specification: the contact strip lists the present segments in the order
  LinkedIn, phone, email, GitHub, with one divider exactly between two adjacent present
  segments, none before the first, none after the last, none doubled. The code keeps
  the order, but it appends a divider after the LinkedIn segment and after the phone
  segment and puts one before the GitHub segment, whatever else is present. With a
  phone only, a divider follows the last segment; with GitHub only, a divider comes
  before the first segment; with LinkedIn and GitHub and no email, two dividers stand
  in a row. The theorem evaluates \<open>contactInfo\<close> at these three inputs.
\<close>

theorem contactInfo_misplaced_dividers:
  "contactInfo (Some (JObj [(''phone'', JStr ''555-0100'')])) =
     Inr (phoneSegment ''555-0100'' @ divider)
   \<and> contactInfo (Some (JObj [(''profiles'', JArr [githubEntry])])) =
     Inr (divider @ githubSegment ''https://github.com/jane'')
   \<and> contactInfo (Some (JObj [(''profiles'', JArr [linkedinEntry, githubEntry])])) =
     Inr (linkedinSegment ''https://linkedin.com/in/jane'' @ divider @ divider @
          githubSegment ''https://github.com/jane'')"
  by (simp add: strip_defs sample_defs)

section \<open>Network matching\<close>









section \<open>The header fragment when fields are missing\<close>

lemma contactInfo_without_profiles:
  assumes "map_of kvs ''profiles'' = None"
  shows "contactInfo (Some (JObj kvs)) =
           Inr ((if truthy (map_of kvs ''phone'')
                 then phoneSegment (interpolate (map_of kvs ''phone'')) @ divider else []) @
                (if truthy (map_of kvs ''email'')
                 then emailSegment (interpolate (map_of kvs ''email'')) else []))"
  using assms
  by (simp add: contactInfo_def addLinkedin_def addPhone_def addEmail_def addGithub_def bindE_def)

lemma headerFragment_empty_basics:
  assumes "map_of kvs ''name'' = None" "map_of kvs ''phone'' = None"
    "map_of kvs ''email'' = None" "map_of kvs ''profiles'' = None"
  shows "headerFragment (Some (JObj [(''basics'', JObj kvs)])) = Inr (headerTemplate [] [])"
  using assms contactInfo_without_profiles [of kvs]
  by (simp add: headerFragment_def basicsOf_def displayName_def bindE_def)

lemma headerFragment_without_basics:
  assumes "getProp resumeData ''basics'' = Inr b" "\<not> truthy b"
  shows "headerFragment resumeData = Inr (headerTemplate [] [])"
  using assms contactInfo_without_profiles [of "[]"]
  by (simp add: headerFragment_def basicsOf_def displayName_def bindE_def)

text \<open>
  C7. The specification: when \<open>basics\<close> is absent the header synthesis does not throw
  and gives a fragment with an empty name and an empty contact strip. The header
  synthesis of export-pdf.js does so: it reads \<open>resumeData.basics || {}\<close> and
  \<open>basics.name || ''\<close>. The older exporter builds its header from
  \<open>resumeData.basics.name\<close> with no default, and throws a TypeError on the same
  document. The theorem evaluates both at the document \<open>{}\<close>.
\<close>

theorem legacy_header_throws_without_basics:
  "legacyHeaderFragment (Some (JObj [])) = Inl TypeError
   \<and> headerFragment (Some (JObj [])) = Inr (headerTemplate [] [])"
  using headerFragment_without_basics [of "Some (JObj [])" None]
  by (simp add: legacyHeaderFragment_def bindE_def)

section \<open>Replacing the first style tag\<close>

lemma replaceFirst_absent: "\<not> sublist pat s \<Longrightarrow> replaceFirst pat rep s = s"
proof (induction s)
  case Nil
  then show ?case by auto
next
  case (Cons c cs)
  then show ?case by (auto simp: sublist_Cons_right)
qed

lemma replaceFirst_first:
  assumes "pat \<noteq> []"
    and "\<forall>pre' post'. pre @ pat @ post = pre' @ pat @ post' \<longrightarrow> length pre \<le> length pre'"
  shows "replaceFirst pat rep (pre @ pat @ post) = pre @ rep @ post"
  using assms
proof (induction pre)
  case Nil
  then show ?case by (cases pat) auto
next
  case (Cons c pre)
  have no_prefix: "\<not> prefix pat (c # pre @ pat @ post)"
  proof
    assume "prefix pat (c # pre @ pat @ post)"
    then obtain r where "c # pre @ pat @ post = pat @ r" by (auto simp: prefix_def)
    then have "(c # pre) @ pat @ post = [] @ pat @ r" by simp
    with Cons.prems(2) have "length (c # pre) \<le> length ([]::string)" by blast
    then show False by simp
  qed
  have "\<forall>pre' post'. pre @ pat @ post = pre' @ pat @ post' \<longrightarrow> length pre \<le> length pre'"
  proof (intro allI impI)
    fix pre' post' assume "pre @ pat @ post = pre' @ pat @ post'"
    then have "(c # pre) @ pat @ post = (c # pre') @ pat @ post'" by simp
    with Cons.prems(2) have "length (c # pre) \<le> length (c # pre')" by blast
    then show "length pre \<le> length pre'" by simp
  qed
  with Cons.IH Cons.prems(1) have "replaceFirst pat rep (pre @ pat @ post) = pre @ rep @ post"
    by blast
  with no_prefix show ?case by simp
qed

text \<open>
  No occurrence of the pattern starts inside \<open>pre\<close> when the pattern does not occur in
  \<open>pre\<close> followed by all but the last character of the pattern.
\<close>

lemma no_earlier_occurrence:
  assumes "pat \<noteq> []" "\<not> sublist pat (pre @ butlast pat)"
    and eq: "pre @ pat @ post = pre' @ pat @ post'"
  shows "length pre \<le> length pre'"
proof (rule ccontr)
  assume "\<not> length pre \<le> length pre'"
  then have len: "length (pre' @ pat) \<le> length (pre @ butlast pat)" by simp
  have "pat = butlast pat @ [last pat]" using assms(1) by simp
  then have "pre @ pat @ post = (pre @ butlast pat) @ last pat # post"
    by (metis append.assoc append_Cons append_Nil)
  then have p1: "prefix (pre @ butlast pat) (pre @ pat @ post)" by (metis prefixI)
  have p2: "prefix (pre' @ pat) (pre @ pat @ post)" using eq by (simp add: prefix_def)
  from prefix_length_prefix [OF p2 p1 len] have "prefix (pre' @ pat) (pre @ butlast pat)" .
  then obtain r where "pre @ butlast pat = pre' @ pat @ r" by (auto simp: prefix_def)
  then have "sublist pat (pre @ butlast pat)" by (metis sublist_appendI)
  with assms(2) show False by contradiction
qed

section \<open>Composing steps\<close>

lemma bindIO_Inr:
  "bindIO m f w = (Inr y, w') \<longleftrightarrow> (\<exists>x w1. m w = (Inr x, w1) \<and> f x w1 = (Inr y, w'))"
  by (auto simp: bindIO_def split: prod.splits sum.splits)

lemma catchIO_rethrow_Inr: "catchIO m rethrow w = (Inr y, w') \<longleftrightarrow> m w = (Inr y, w')"
  by (auto simp: io_defs split: prod.splits sum.splits)

lemma alwaysD: "always R m \<Longrightarrow> m w = (r, w') \<Longrightarrow> R w w'"
  by (auto simp: always_def)

lemma always_bind:
  assumes trans: "\<And>a b c. R a b \<Longrightarrow> R b c \<Longrightarrow> R a c"
    and m: "always R m" and f: "\<And>x. always R (f x)"
  shows "always R (bindIO m f)"
  unfolding always_def
proof (intro allI impI)
  fix w r w' assume run: "bindIO m f w = (r, w')"
  obtain r1 w1 where first: "m w = (r1, w1)" by (cases "m w")
  with m have step: "R w w1" by (rule alwaysD)
  show "R w w'"
  proof (cases r1)
    case (Inl e)
    with first run have "w' = w1" by (simp add: bindIO_def)
    with step show ?thesis by simp
  next
    case (Inr x)
    with first run have "f x w1 = (r, w')" by (simp add: bindIO_def)
    with f have "R w1 w'" by (rule alwaysD)
    with step show ?thesis by (rule trans)
  qed
qed

lemma always_catch:
  assumes trans: "\<And>a b c. R a b \<Longrightarrow> R b c \<Longrightarrow> R a c"
    and m: "always R m" and h: "\<And>e. always R (h e)"
  shows "always R (catchIO m h)"
  unfolding always_def
proof (intro allI impI)
  fix w r w' assume run: "catchIO m h w = (r, w')"
  obtain r1 w1 where first: "m w = (r1, w1)" by (cases "m w")
  with m have step: "R w w1" by (rule alwaysD)
  show "R w w'"
  proof (cases r1)
    case (Inl e)
    with first run have "h e w1 = (r, w')" by (simp add: catchIO_def)
    with h have "R w1 w'" by (rule alwaysD)
    with step show ?thesis by (rule trans)
  next
    case (Inr x)
    with first run have "w' = w1" by (simp add: catchIO_def)
    with step show ?thesis by simp
  qed
qed

lemma never_bind: "never e m \<Longrightarrow> (\<And>x. never e (f x)) \<Longrightarrow> never e (bindIO m f)"
  by (auto simp: never_def bindIO_def split: prod.splits sum.splits)

lemma never_case_prod: "(\<And>a b. never e (f a b)) \<Longrightarrow> never e (case_prod f x)"
  by (cases x) simp

lemma always_case_prod: "(\<And>a b. always R (f a b)) \<Longrightarrow> always R (case_prod f x)"
  by (cases x) simp

lemma never_catch_rethrow: "never e m \<Longrightarrow> never e (catchIO m rethrow)"
  by (auto simp: never_def io_defs split: prod.splits sum.splits)

section \<open>The errors of the header synthesis are TypeErrors\<close>

lemma getProp_error: "getProp v k = Inl e \<Longrightarrow> e = TypeError"
proof (cases v)
  case None
  then show "getProp v k = Inl e \<Longrightarrow> e = TypeError" by simp
next
  case (Some j)
  then show "getProp v k = Inl e \<Longrightarrow> e = TypeError" by (cases j) auto
qed

lemma networkIs_error: "networkIs t p = Inl e \<Longrightarrow> e = TypeError"
  by (auto simp: networkIs_def bindE_def split: sum.splits if_splits option.splits json.splits
      dest: getProp_error)

lemma findNetwork_error: "findNetwork t ps = Inl e \<Longrightarrow> e = TypeError"
  by (induction ps) (auto split: sum.splits bool.splits dest: networkIs_error)

lemma profilesFind_error: "profilesFind t v = Inl e \<Longrightarrow> e = TypeError"
  by (auto simp: profilesFind_def split: option.splits json.splits dest: findNetwork_error)

lemma addLinkedin_error: "addLinkedin b c = Inl e \<Longrightarrow> e = TypeError"
  by (auto simp: addLinkedin_def bindE_def split: sum.splits if_splits
      dest: getProp_error profilesFind_error)

lemma addGithub_error: "addGithub b c = Inl e \<Longrightarrow> e = TypeError"
  by (auto simp: addGithub_def bindE_def split: sum.splits if_splits
      dest: getProp_error profilesFind_error)

lemma addPhone_error: "addPhone b c = Inl e \<Longrightarrow> e = TypeError"
  by (auto simp: addPhone_def bindE_def split: sum.splits if_splits dest: getProp_error)

lemma addEmail_error: "addEmail b c = Inl e \<Longrightarrow> e = TypeError"
  by (auto simp: addEmail_def bindE_def split: sum.splits if_splits dest: getProp_error)

lemma contactInfo_error: "contactInfo b = Inl e \<Longrightarrow> e = TypeError"
  by (auto simp: contactInfo_def bindE_def split: sum.splits
      dest: addLinkedin_error addPhone_error addEmail_error addGithub_error)

lemma basicsOf_error: "basicsOf d = Inl e \<Longrightarrow> e = TypeError"
  by (auto simp: basicsOf_def bindE_def split: sum.splits if_splits dest: getProp_error)

lemma displayName_error: "displayName b = Inl e \<Longrightarrow> e = TypeError"
  by (auto simp: displayName_def bindE_def split: sum.splits if_splits dest: getProp_error)

section \<open>No step but the input check rejects the resume\<close>

lemma never_rejected_steps:
  "never ResumeRejected (existsSync p)"
  "never ResumeRejected (readFileSync E p)"
  "never ResumeRejected (mkdirSync E p)"
  "never ResumeRejected (writeFileSync E p text)"
  "never ResumeRejected (unlinkSync E p)"
  "never ResumeRejected (render E d)"
  "never ResumeRejected (launch E)"
  "never ResumeRejected (newPage E)"
  "never ResumeRejected (setContent E html)"
  "never ResumeRejected (pagePdf E html po)"
  "never ResumeRejected (browserClose E)"
  "never ResumeRejected (emit ev)"
  "never ResumeRejected (returnIO x)"
  by (auto simp: never_def io_defs fs_defs engine_defs split: prod.splits sum.splits option.splits if_splits)

lemma never_rejected_pure:
  "never ResumeRejected (liftE (basicsOf d))"
  "never ResumeRejected (liftE (contactInfo b))"
  "never ResumeRejected (liftE (displayName b))"
  by (auto simp: never_def liftE_def dest: basicsOf_error contactInfo_error displayName_error)

lemma never_rejected_ensureOutputDir: "never ResumeRejected (ensureOutputDir E out)"
  by (simp add: ensureOutputDir_def Let_def never_bind never_rejected_steps)

lemma never_rejected_cleanupTmp: "never ResumeRejected (cleanupTmp E r p)"
  by (simp add: cleanupTmp_def never_bind never_rejected_steps)

lemma never_rejected_loadResume:
  "typeof r = ''object'' \<Longrightarrow> never ResumeRejected (loadResume E r t)"
  by (simp add: loadResume_def Let_def never_bind never_rejected_steps)

lemmas never_rejected =
  never_rejected_steps never_rejected_pure never_rejected_ensureOutputDir
  never_rejected_cleanupTmp never_rejected_loadResume

lemma never_rejected_pdf:
  assumes "typeof (resume opts) = ''object''"
  shows "never ResumeRejected (generateResumePDF E opts)"
  unfolding generateResumePDF_def using assms
  by (intro never_catch_rethrow never_bind never_case_prod) (simp_all add: never_rejected)

lemma never_rejected_bands:
  assumes "typeof (resume opts) = ''object''"
  shows "never ResumeRejected (generateResumePDFBands E opts)"
  unfolding generateResumePDFBands_def using assms
  by (intro never_catch_rethrow never_bind never_case_prod) (simp_all add: never_rejected)

lemma never_rejected_html:
  assumes "typeof r = ''object''"
  shows "never ResumeRejected (generateResumeHTML E r)"
  unfolding generateResumeHTML_def using assms
  by (intro never_catch_rethrow never_bind) (simp_all add: never_rejected)

lemma neverD: "never e m \<Longrightarrow> fst (m w) \<noteq> Inl e"
  by (cases "m w") (auto simp: never_def)

text \<open>A value that is neither a string nor an object is rejected.\<close>

lemma other_values_rejected:
  assumes "typeof r \<noteq> ''string''" "typeof r \<noteq> ''object''"
  shows "fst (generateResumePDF E (opts\<lparr>resume := r\<rparr>) w) = Inl ResumeRejected"
    and "fst (generateResumePDFBands E (opts\<lparr>resume := r\<rparr>) w) = Inl ResumeRejected"
    and "fst (generateResumeHTML E r w) = Inl ResumeRejected"
  using assms
  by (simp_all add: generateResumePDF_def generateResumePDFBands_def generateResumeHTML_def
      loadResume_def io_defs)


section \<open>What the steps do to the world\<close>

lemma nothingDeleted_trans:
  "nothingDeleted a b \<Longrightarrow> nothingDeleted b c \<Longrightarrow> nothingDeleted a c"
  by (auto simp: nothingDeleted_def)

lemma traceExtends_trans: "traceExtends a b \<Longrightarrow> traceExtends b c \<Longrightarrow> traceExtends a c"
  by (auto simp: traceExtends_def)

lemmas nothingDeleted_bind = always_bind [of nothingDeleted, OF nothingDeleted_trans]
lemmas nothingDeleted_catch = always_catch [of nothingDeleted, OF nothingDeleted_trans]
lemmas traceExtends_bind = always_bind [of traceExtends, OF traceExtends_trans]
lemmas traceExtends_catch = always_catch [of traceExtends, OF traceExtends_trans]

lemma nothingDeleted_steps:
  "always nothingDeleted (existsSync p)"
  "always nothingDeleted (readFileSync E p)"
  "always nothingDeleted (mkdirSync E p)"
  "always nothingDeleted (writeFileSync E p text)"
  "always nothingDeleted (render E d)"
  "always nothingDeleted (launch E)"
  "always nothingDeleted (newPage E)"
  "always nothingDeleted (setContent E html)"
  "always nothingDeleted (pagePdf E html po)"
  "always nothingDeleted (browserClose E)"
  "always nothingDeleted (emit ConsoleLog)"
  "always nothingDeleted (emit ConsoleError)"
  "always nothingDeleted (returnIO x)"
  "always nothingDeleted (throwIO e)"
  "always nothingDeleted (liftE v)"
  by (auto simp: always_def nothingDeleted_def io_defs fs_defs engine_defs
      split: prod.splits sum.splits option.splits if_splits)

lemma nothingDeleted_rethrow: "always nothingDeleted (rethrow e)"
  by (simp add: rethrow_def nothingDeleted_bind nothingDeleted_steps)

lemma nothingDeleted_ensureOutputDir: "always nothingDeleted (ensureOutputDir E out)"
  by (simp add: ensureOutputDir_def Let_def nothingDeleted_bind nothingDeleted_steps)

lemma nothingDeleted_loadResume:
  "typeof r = ''string'' \<Longrightarrow> always nothingDeleted (loadResume E r t)"
  by (auto simp: loadResume_def Let_def nothingDeleted_steps split: option.splits
      intro!: nothingDeleted_bind)

lemma nothingDeleted_cleanupTmp:
  "typeof r = ''string'' \<Longrightarrow> always nothingDeleted (cleanupTmp E r p)"
  by (simp add: cleanupTmp_def nothingDeleted_steps)

lemmas nothingDeleted_all =
  nothingDeleted_steps nothingDeleted_rethrow nothingDeleted_ensureOutputDir
  nothingDeleted_loadResume nothingDeleted_cleanupTmp

lemma nothingDeleted_pdf:
  assumes "typeof (resume opts) = ''string''"
  shows "always nothingDeleted (generateResumePDF E opts)"
  unfolding generateResumePDF_def using assms
  by (intro nothingDeleted_catch nothingDeleted_bind always_case_prod)
     (simp_all add: nothingDeleted_all)

lemma nothingDeleted_bands:
  assumes "typeof (resume opts) = ''string''"
  shows "always nothingDeleted (generateResumePDFBands E opts)"
  unfolding generateResumePDFBands_def using assms
  by (intro nothingDeleted_catch nothingDeleted_bind always_case_prod)
     (simp_all add: nothingDeleted_all)

lemma traceExtends_steps:
  "always traceExtends (existsSync p)"
  "always traceExtends (readFileSync E p)"
  "always traceExtends (mkdirSync E p)"
  "always traceExtends (writeFileSync E p text)"
  "always traceExtends (unlinkSync E p)"
  "always traceExtends (render E d)"
  "always traceExtends (launch E)"
  "always traceExtends (newPage E)"
  "always traceExtends (setContent E html)"
  "always traceExtends (pagePdf E html po)"
  "always traceExtends (browserClose E)"
  "always traceExtends (emit ev)"
  "always traceExtends (returnIO x)"
  "always traceExtends (throwIO e)"
  "always traceExtends (liftE v)"
  by (auto simp: always_def traceExtends_def io_defs fs_defs engine_defs
      split: prod.splits sum.splits option.splits if_splits)

lemma traceExtends_rethrow: "always traceExtends (rethrow e)"
  by (simp add: rethrow_def traceExtends_bind traceExtends_steps)

lemma traceExtends_ensureOutputDir: "always traceExtends (ensureOutputDir E out)"
  by (simp add: ensureOutputDir_def Let_def traceExtends_bind traceExtends_steps)

lemma traceExtends_loadResume: "always traceExtends (loadResume E r t)"
  by (auto simp: loadResume_def Let_def traceExtends_steps split: option.splits
      intro!: traceExtends_bind)

lemma traceExtends_cleanupTmp: "always traceExtends (cleanupTmp E r p)"
  by (auto simp: cleanupTmp_def traceExtends_steps intro!: traceExtends_bind)

lemmas traceExtends_all =
  traceExtends_steps traceExtends_rethrow traceExtends_ensureOutputDir
  traceExtends_loadResume traceExtends_cleanupTmp

lemma keepsD: "keeps p m \<Longrightarrow> m w = (Inr x, w') \<Longrightarrow> isFile p w \<Longrightarrow> isFile p w'"
  by (auto simp: keeps_def)

lemma keeps_steps:
  "keeps q (existsSync p)"
  "keeps q (render E d)"
  "keeps q (launch E)"
  "keeps q (newPage E)"
  "keeps q (setContent E html)"
  "keeps q (pagePdf E html po)"
  "keeps q (browserClose E)"
  "keeps q (emit ev)"
  "keeps q (returnIO x)"
  "keeps q (liftE v)"
  by (auto simp: keeps_def isFile_def io_defs fs_defs engine_defs
      split: prod.splits sum.splits option.splits if_splits)

text \<open>\<open>mkdirSync\<close> fails when it would have to turn a regular file into a directory.\<close>

lemma keeps_mkdirSync: "keeps q (mkdirSync E p)"
  by (auto simp: keeps_def isFile_def io_defs fs_defs list_ex_iff
      split: prod.splits sum.splits option.splits if_splits)

lemma keeps_ensureOutputDir: "keeps q (ensureOutputDir E out)"
  using keeps_mkdirSync [of q E "pathDirname out"]
  by (auto simp: keeps_def ensureOutputDir_def Let_def bindIO_Inr existsSync_def isFile_def
      returnIO_def split: if_splits)

text \<open>An object is written to the transient file; the file is there when loading is over.\<close>

lemma loadResume_object:
  assumes "typeof r = ''object''" "loadResume E r t w = (Inr (d, p), w1)"
  shows "d = r \<and> p = transientPath t (dateNow E) \<and> isFile p w1"
  using assms
  by (auto simp: loadResume_def Let_def bindIO_Inr transientPath_def isFile_def io_defs fs_defs
      split: if_splits)

lemma cleanupTmp_object:
  assumes "typeof r = ''object''" "cleanupTmp E r p w = (Inr u, w')" "isFile p w"
  shows "\<not> pathExists w' p"
  using assms
  by (auto simp: cleanupTmp_def bindIO_Inr isFile_def io_defs fs_defs split: if_splits)

lemma emit_pathExists: "emit ev w = (r, w') \<Longrightarrow> pathExists w' p = pathExists w p"
  by (auto simp: emit_def pathExists_def)

lemma ensureOutputDir_trace:
  assumes "ensureOutputDir E out w = (Inr u, w')"
  shows "trace w' = trace w @ [ExistsSync (pathDirname out) True] \<or>
         trace w' = trace w @ [ExistsSync (pathDirname out) False, MkdirSync (pathDirname out)]"
  using assms
  by (auto simp: ensureOutputDir_def Let_def bindIO_Inr io_defs fs_defs split: if_splits)

lemma pagePdf_trace:
  assumes "pagePdf E c po w = (Inr u, w')"
  shows "trace w' = trace w @ [PagePdf po]"
  using assms
  by (auto simp: pagePdf_def bindIO_Inr io_defs fs_defs split: if_splits option.splits)

lemma liftE_world: "liftE v w = (r, w') \<Longrightarrow> w' = w"
  by (simp add: liftE_def)

section \<open>The steps of a successful run\<close>

lemma generateResumePDF_steps:
  assumes "generateResumePDF E opts w = (Inr out, w')"
  obtains d p w1 html w2 w3 w4 w5 w6 w7 w8 w9 where
    "loadResume E (resume opts) (tmpDirOf opts) w = (Inr (d, p), w1)"
    "render E d w1 = (Inr html, w2)"
    "launch E w2 = (Inr (), w3)"
    "newPage E w3 = (Inr (), w4)"
    "setContent E html w4 = (Inr (), w5)"
    "ensureOutputDir E (outputPath opts) w5 = (Inr (), w6)"
    "pagePdf E html (plainPdfOptions (outputPath opts)) w6 = (Inr (), w7)"
    "browserClose E w7 = (Inr (), w8)"
    "cleanupTmp E (resume opts) p w8 = (Inr (), w9)"
    "emit ConsoleLog w9 = (Inr (), w')"
    "out = outputPath opts"
  using assms unfolding generateResumePDF_def catchIO_rethrow_Inr
  by (auto simp: bindIO_Inr returnIO_def)

lemma generateResumePDFBands_steps:
  assumes "generateResumePDFBands E opts w = (Inr out, w')"
  obtains d p w1 html w2 w3 w4 w5 basics contact w6 name w7 w8 w9 w10 where
    "loadResume E (resume opts) (tmpDirOf opts) w = (Inr (d, p), w1)"
    "render E d w1 = (Inr html, w2)"
    "launch E w2 = (Inr (), w3)"
    "newPage E w3 = (Inr (), w4)"
    "setContent E (htmlWithHiddenHeader html) w4 = (Inr (), w5)"
    "basicsOf d = Inr basics"
    "contactInfo basics = Inr contact"
    "ensureOutputDir E (outputPath opts) w5 = (Inr (), w6)"
    "displayName basics = Inr name"
    "pagePdf E (htmlWithHiddenHeader html)
       (bandPdfOptions (outputPath opts) (headerTemplate name contact)) w6 = (Inr (), w7)"
    "browserClose E w7 = (Inr (), w8)"
    "cleanupTmp E (resume opts) p w8 = (Inr (), w9)"
    "emit ConsoleLog w9 = (Inr (), w')"
    "out = outputPath opts"
  using assms unfolding generateResumePDFBands_def catchIO_rethrow_Inr
  by (auto simp: bindIO_Inr returnIO_def liftE_def)


section \<open>Runs on the concrete inputs\<close>

lemma sample_transientPath: "transientPath ''/tmp'' 1764000000000 = sampleTransient"
  by (simp add: transientPath_def transientName_def pathJoin_def pathNormalize_def
      normalizeString_def normStep_def decimal.simps sampleTransient_def)

lemma sample_pathJoin: "pathJoin ''/tmp'' (transientName 1764000000000) = sampleTransient"
  using sample_transientPath by (simp only: transientPath_def)

lemma sample_pathDirname: "pathDirname ''/out/resume.pdf'' = ''/out''"
  by (simp add: pathDirname_def)

lemmas run_defs =
  loadResume_def ensureOutputDir_def cleanupTmp_def tmpDirOf_def io_defs fs_defs engine_defs
  ancestors_def Let_def sample_pathJoin sample_pathDirname sampleTransient_def
  sampleEnv_def pdfFailsEnv_def sampleOptions_def sampleWorld_def janeDoe_def
  plainPdfOptions_def bandPdfOptions_def

lemma sample_run:
  "generateResumePDF sampleEnv sampleOptions sampleWorld = (Inr ''/out/resume.pdf'', sampleWorldAfter)"
  by (simp add: generateResumePDF_def run_defs sampleWorldAfter_def samplePdfCall_def)

lemma failing_run:
  "generateResumePDF pdfFailsEnv sampleOptions sampleWorld =
     (Inl PdfFailed,
      \<lparr>files = [sampleTransient \<mapsto> ''{}''], dirs = {''/out'', ''/tmp''}, openBrowsers = 1,
       trace =
         [ExistsSync ''/tmp'' True, WriteFileSync sampleTransient ''{}'', Render, Launch, NewPage,
          SetContent ''<html><style>h1{}</style></html>'',
          ExistsSync ''/out'' False, MkdirSync ''/out'', samplePdfCall, ConsoleError]\<rparr>)"
  by (simp add: generateResumePDF_def run_defs samplePdfCall_def)

lemma failing_run_bands:
  "fst (generateResumePDFBands pdfFailsEnv sampleOptions sampleWorld) = Inl PdfFailed
   \<and> openBrowsers (snd (generateResumePDFBands pdfFailsEnv sampleOptions sampleWorld)) = 1
   \<and> Launch \<in> set (trace (snd (generateResumePDFBands pdfFailsEnv sampleOptions sampleWorld)))
   \<and> BrowserClose \<notin> set (trace (snd (generateResumePDFBands pdfFailsEnv sampleOptions sampleWorld)))"
  by (simp add: generateResumePDFBands_def run_defs basicsOf_def displayName_def strip_defs
      janeDoe_def htmlWithHiddenHeader_def styleTag_def)

section \<open>Releasing the rendering engine\<close>

lemma sameBrowsers_steps:
  "always (\<lambda>w w'. openBrowsers w' = openBrowsers w) (existsSync p)"
  "always (\<lambda>w w'. openBrowsers w' = openBrowsers w) (readFileSync E p)"
  "always (\<lambda>w w'. openBrowsers w' = openBrowsers w) (mkdirSync E p)"
  "always (\<lambda>w w'. openBrowsers w' = openBrowsers w) (writeFileSync E p text)"
  "always (\<lambda>w w'. openBrowsers w' = openBrowsers w) (unlinkSync E p)"
  "always (\<lambda>w w'. openBrowsers w' = openBrowsers w) (render E d)"
  "always (\<lambda>w w'. openBrowsers w' = openBrowsers w) (newPage E)"
  "always (\<lambda>w w'. openBrowsers w' = openBrowsers w) (setContent E html)"
  "always (\<lambda>w w'. openBrowsers w' = openBrowsers w) (pagePdf E html po)"
  "always (\<lambda>w w'. openBrowsers w' = openBrowsers w) (emit ev)"
  "always (\<lambda>w w'. openBrowsers w' = openBrowsers w) (returnIO x)"
  "always (\<lambda>w w'. openBrowsers w' = openBrowsers w) (throwIO e)"
  by (auto simp: always_def io_defs fs_defs engine_defs
      split: prod.splits sum.splits option.splits if_splits)

lemma sameBrowsers_compound:
  "always (\<lambda>w w'. openBrowsers w' = openBrowsers w) (loadResume E r t)"
  "always (\<lambda>w w'. openBrowsers w' = openBrowsers w) (ensureOutputDir E out)"
  "always (\<lambda>w w'. openBrowsers w' = openBrowsers w) (cleanupTmp E r p)"
  by (auto simp: loadResume_def ensureOutputDir_def cleanupTmp_def Let_def sameBrowsers_steps
      split: option.splits intro!: always_bind)

lemma launch_opens: "launch E w = (Inr u, w') \<Longrightarrow> openBrowsers w' = openBrowsers w + 1"
  by (auto simp: launch_def io_defs split: if_splits)

lemma browserClose_closes:
  "browserClose E w = (Inr u, w') \<Longrightarrow> openBrowsers w' = openBrowsers w - 1"
  by (auto simp: browserClose_def io_defs split: if_splits)

text \<open>On the path without an error the instance that was launched is closed again.\<close>

lemma browser_closed_on_success:
  assumes "generateResumePDF E opts w = (Inr out, w')"
  shows "openBrowsers w' = openBrowsers w"
proof -
  from assms obtain d p w1 html w2 w3 w4 w5 w6 w7 w8 w9 where
    s: "loadResume E (resume opts) (tmpDirOf opts) w = (Inr (d, p), w1)"
    "render E d w1 = (Inr html, w2)"
    "launch E w2 = (Inr (), w3)"
    "newPage E w3 = (Inr (), w4)"
    "setContent E html w4 = (Inr (), w5)"
    "ensureOutputDir E (outputPath opts) w5 = (Inr (), w6)"
    "pagePdf E html (plainPdfOptions (outputPath opts)) w6 = (Inr (), w7)"
    "browserClose E w7 = (Inr (), w8)"
    "cleanupTmp E (resume opts) p w8 = (Inr (), w9)"
    "emit ConsoleLog w9 = (Inr (), w')"
    by (rule generateResumePDF_steps)
  note same = sameBrowsers_steps sameBrowsers_compound
  have "openBrowsers w2 = openBrowsers w"
    using s(1,2) same(6) [of E d] same(13) [of E "resume opts" "tmpDirOf opts"]
    by (auto dest!: alwaysD)
  moreover have "openBrowsers w3 = openBrowsers w2 + 1" using s(3) by (rule launch_opens)
  moreover have "openBrowsers w7 = openBrowsers w3"
    using s(4,5,6,7) same(7) [of E] same(8) [of E html] same(14) [of E "outputPath opts"]
      same(9) [of E html "plainPdfOptions (outputPath opts)"]
    by (auto dest!: alwaysD)
  moreover have "openBrowsers w8 = openBrowsers w7 - 1" using s(8) by (rule browserClose_closes)
  moreover have "openBrowsers w' = openBrowsers w8"
    using s(9,10) same(10) [of ConsoleLog] same(15) [of E "resume opts" p]
    by (auto dest!: alwaysD)
  ultimately show ?thesis by simp
qed

text \<open>
  C2. The specification: whether the export succeeds or fails after the rendering
  engine was launched, the engine is released before the operation returns or throws.
  The code calls \<open>browser.close()\<close> inside the \<open>try\<close> block, after \<open>page.pdf\<close>, and
  the \<open>catch\<close> block prints the message and throws the error again: a step that fails
  between the launch and the close leaves the instance open. The theorem runs both
  variants of the operation on an object, in an environment where \<open>page.pdf\<close> fails:
  the operation fails with that error, the engine was launched, \<open>close\<close> was never
  called, and one instance is open afterwards where none was before.
\<close>

theorem failed_export_leaves_browser_open:
  "openBrowsers sampleWorld = 0
   \<and> fst (generateResumePDF pdfFailsEnv sampleOptions sampleWorld) = Inl PdfFailed
   \<and> openBrowsers (snd (generateResumePDF pdfFailsEnv sampleOptions sampleWorld)) = 1
   \<and> Launch \<in> set (trace (snd (generateResumePDF pdfFailsEnv sampleOptions sampleWorld)))
   \<and> BrowserClose \<notin> set (trace (snd (generateResumePDF pdfFailsEnv sampleOptions sampleWorld)))
   \<and> fst (generateResumePDFBands pdfFailsEnv sampleOptions sampleWorld) = Inl PdfFailed
   \<and> openBrowsers (snd (generateResumePDFBands pdfFailsEnv sampleOptions sampleWorld)) = 1
   \<and> Launch \<in> set (trace (snd (generateResumePDFBands pdfFailsEnv sampleOptions sampleWorld)))
   \<and> BrowserClose \<notin> set (trace (snd (generateResumePDFBands pdfFailsEnv sampleOptions sampleWorld)))"
proof -
  have "openBrowsers sampleWorld = 0" by (simp add: sampleWorld_def)
  with failing_run_bands show ?thesis by (simp add: failing_run samplePdfCall_def)
qed


section \<open>The transient file\<close>

lemma loadResume_object_trace:
  assumes "typeof r = ''object''" "loadResume E r t w = (Inr (d, p), w1)"
  shows "\<exists>evs. trace w1 = trace w @ evs \<and> WriteFileSync p (jsonStringify E r) \<in> set evs"
  using assms
  by (auto simp: loadResume_def Let_def bindIO_Inr io_defs fs_defs split: if_splits)

lemma pdf_removes_transient:
  assumes ty: "typeof (resume opts) = ''object''"
    and run: "generateResumePDF E opts w = (Inr out, w')"
  shows "\<not> pathExists w' (transientPath (tmpDirOf opts) (dateNow E)) \<and>
         (\<exists>evs. trace w' = trace w @ evs \<and>
            WriteFileSync (transientPath (tmpDirOf opts) (dateNow E)) (jsonStringify E (resume opts))
              \<in> set evs)"
proof -
  from run obtain d p w1 html w2 w3 w4 w5 w6 w7 w8 w9 where
    s1: "loadResume E (resume opts) (tmpDirOf opts) w = (Inr (d, p), w1)" and
    s2: "render E d w1 = (Inr html, w2)" and
    s3: "launch E w2 = (Inr (), w3)" and
    s4: "newPage E w3 = (Inr (), w4)" and
    s5: "setContent E html w4 = (Inr (), w5)" and
    s6: "ensureOutputDir E (outputPath opts) w5 = (Inr (), w6)" and
    s7: "pagePdf E html (plainPdfOptions (outputPath opts)) w6 = (Inr (), w7)" and
    s8: "browserClose E w7 = (Inr (), w8)" and
    s9: "cleanupTmp E (resume opts) p w8 = (Inr (), w9)" and
    s10: "emit ConsoleLog w9 = (Inr (), w')"
    by (rule generateResumePDF_steps)
  from loadResume_object [OF ty s1]
  have p: "p = transientPath (tmpDirOf opts) (dateNow E)" and f1: "isFile p w1"
    by blast+
  have "isFile p w8"
    using f1 s2 s3 s4 s5 s6 s7 s8 keeps_steps keeps_ensureOutputDir by (metis keepsD)
  with cleanupTmp_object [OF ty s9] have "\<not> pathExists w9 p" by simp
  with emit_pathExists [OF s10] have gone: "\<not> pathExists w' p" by simp
  from loadResume_object_trace [OF ty s1] obtain evs1 where
    e1: "trace w1 = trace w @ evs1" "WriteFileSync p (jsonStringify E (resume opts)) \<in> set evs1"
    by blast
  have "traceExtends w1 w'"
    using s2 s3 s4 s5 s6 s7 s8 s9 s10 traceExtends_all by (metis alwaysD traceExtends_trans)
  then obtain evs2 where "trace w' = trace w1 @ evs2" by (auto simp: traceExtends_def)
  with e1 have "trace w' = trace w @ (evs1 @ evs2) \<and>
      WriteFileSync p (jsonStringify E (resume opts)) \<in> set (evs1 @ evs2)" by simp
  with gone p show ?thesis by blast
qed

lemma bands_removes_transient:
  assumes ty: "typeof (resume opts) = ''object''"
    and run: "generateResumePDFBands E opts w = (Inr out, w')"
  shows "\<not> pathExists w' (transientPath (tmpDirOf opts) (dateNow E)) \<and>
         (\<exists>evs. trace w' = trace w @ evs \<and>
            WriteFileSync (transientPath (tmpDirOf opts) (dateNow E)) (jsonStringify E (resume opts))
              \<in> set evs)"
proof -
  from run obtain d p w1 html w2 w3 w4 w5 basics contact w6 name w7 w8 w9 where
    s1: "loadResume E (resume opts) (tmpDirOf opts) w = (Inr (d, p), w1)" and
    s2: "render E d w1 = (Inr html, w2)" and
    s3: "launch E w2 = (Inr (), w3)" and
    s4: "newPage E w3 = (Inr (), w4)" and
    s5: "setContent E (htmlWithHiddenHeader html) w4 = (Inr (), w5)" and
    s6: "ensureOutputDir E (outputPath opts) w5 = (Inr (), w6)" and
    s7: "pagePdf E (htmlWithHiddenHeader html)
       (bandPdfOptions (outputPath opts) (headerTemplate name contact)) w6 = (Inr (), w7)" and
    s8: "browserClose E w7 = (Inr (), w8)" and
    s9: "cleanupTmp E (resume opts) p w8 = (Inr (), w9)" and
    s10: "emit ConsoleLog w9 = (Inr (), w')"
    by (rule generateResumePDFBands_steps)
  from loadResume_object [OF ty s1]
  have p: "p = transientPath (tmpDirOf opts) (dateNow E)" and f1: "isFile p w1"
    by blast+
  have "isFile p w8"
    using f1 s2 s3 s4 s5 s6 s7 s8 keeps_steps keeps_ensureOutputDir by (metis keepsD)
  with cleanupTmp_object [OF ty s9] have "\<not> pathExists w9 p" by simp
  with emit_pathExists [OF s10] have gone: "\<not> pathExists w' p" by simp
  from loadResume_object_trace [OF ty s1] obtain evs1 where
    e1: "trace w1 = trace w @ evs1" "WriteFileSync p (jsonStringify E (resume opts)) \<in> set evs1"
    by blast
  have "traceExtends w1 w'"
    using s2 s3 s4 s5 s6 s7 s8 s9 s10 traceExtends_all by (metis alwaysD traceExtends_trans)
  then obtain evs2 where "trace w' = trace w1 @ evs2" by (auto simp: traceExtends_def)
  with e1 have "trace w' = trace w @ (evs1 @ evs2) \<and>
      WriteFileSync p (jsonStringify E (resume opts)) \<in> set (evs1 @ evs2)" by simp
  with gone p show ?thesis by blast
qed

text \<open>
  C4. When the resume is an in-memory object (\<open>typeof\<close> is \<open>object\<close>) and the PDF export
  returns without an error, the transient JSON file that was written under the
  temporary directory does not exist any more when the operation returns. When the
  resume is a file path, nothing is deleted, whatever the outcome: every file and
  directory that was there is still there and \<open>unlinkSync\<close> is never called. Both
  hold for the export without and with the header and footer bands.
\<close>

theorem transient_file_removed_on_success:
  "(typeof (resume opts) = ''object'' \<and> generateResumePDF E opts w = (Inr out, w') \<longrightarrow>
      \<not> pathExists w' (transientPath (tmpDirOf opts) (dateNow E)) \<and>
      (\<exists>evs. trace w' = trace w @ evs \<and>
         WriteFileSync (transientPath (tmpDirOf opts) (dateNow E)) (jsonStringify E (resume opts))
           \<in> set evs))
   \<and> (typeof (resume opts) = ''object'' \<and> generateResumePDFBands E opts w = (Inr out, w') \<longrightarrow>
      \<not> pathExists w' (transientPath (tmpDirOf opts) (dateNow E)) \<and>
      (\<exists>evs. trace w' = trace w @ evs \<and>
         WriteFileSync (transientPath (tmpDirOf opts) (dateNow E)) (jsonStringify E (resume opts))
           \<in> set evs))
   \<and> (typeof (resume opts) = ''string'' \<and> generateResumePDF E opts w = (r, w2) \<longrightarrow>
        nothingDeleted w w2)
   \<and> (typeof (resume opts) = ''string'' \<and> generateResumePDFBands E opts w = (r, w2) \<longrightarrow>
        nothingDeleted w w2)"
  using pdf_removes_transient [of opts E w out w'] bands_removes_transient [of opts E w out w']
    alwaysD [OF nothingDeleted_pdf, of opts E w r w2]
    alwaysD [OF nothingDeleted_bands, of opts E w r w2]
  by blast

theorem transient_file_removed_on_success_witness:
  "typeof (resume sampleOptions) = ''object''
   \<and> generateResumePDF sampleEnv sampleOptions sampleWorld = (Inr ''/out/resume.pdf'', sampleWorldAfter)
   \<and> transientPath (tmpDirOf sampleOptions) (dateNow sampleEnv) = sampleTransient
   \<and> WriteFileSync sampleTransient ''{}'' \<in> set (trace sampleWorldAfter)
   \<and> \<not> pathExists sampleWorldAfter sampleTransient"
proof -
  have ty: "typeof (resume sampleOptions) = ''object''"
    by (simp add: sampleOptions_def janeDoe_def)
  have tp: "transientPath (tmpDirOf sampleOptions) (dateNow sampleEnv) = sampleTransient"
    using sample_transientPath by (simp add: tmpDirOf_def sampleOptions_def sampleEnv_def)
  have wr: "WriteFileSync sampleTransient ''{}'' \<in> set (trace sampleWorldAfter)"
    by (simp add: sampleWorldAfter_def)
  from transient_file_removed_on_success
    [of sampleOptions sampleEnv sampleWorld "''/out/resume.pdf''" sampleWorldAfter]
    ty sample_run
  have "\<not> pathExists sampleWorldAfter (transientPath (tmpDirOf sampleOptions) (dateNow sampleEnv))"
    by blast
  with ty tp wr sample_run show ?thesis by simp
qed


section \<open>A resume file that does not exist\<close>

text \<open>
  C6. When the resume is given as a path and nothing exists at that path, the PDF
  generation (without and with the bands) and the HTML generation fail with the error
  \<open>Resume file not found at: <path>\<close>. The only calls made are \<open>existsSync\<close> on the
  path and the \<open>console.error\<close> of the \<open>catch\<close> block: the world afterwards differs
  from the one before in its trace only, so no destination file was created and no
  transient file was written.
\<close>

theorem missing_resume_file_not_found:
  assumes "\<not> pathExists w p"
  shows "generateResumePDF E (opts\<lparr>resume := Some (JStr p)\<rparr>) w =
           (Inl (ResumeNotFound p), w\<lparr>trace := trace w @ [ExistsSync p False, ConsoleError]\<rparr>)
       \<and> generateResumePDFBands E (opts\<lparr>resume := Some (JStr p)\<rparr>) w =
           (Inl (ResumeNotFound p), w\<lparr>trace := trace w @ [ExistsSync p False, ConsoleError]\<rparr>)
       \<and> generateResumeHTML E (Some (JStr p)) w =
           (Inl (ResumeNotFound p), w\<lparr>trace := trace w @ [ExistsSync p False, ConsoleError]\<rparr>)"
  using assms
  by (simp add: generateResumePDF_def generateResumePDFBands_def generateResumeHTML_def
      loadResume_def Let_def bindIO_def catchIO_def throwIO_def rethrow_def emit_def existsSync_def)

theorem missing_resume_file_not_found_witness:
  "\<not> pathExists sampleWorld ''/home/jane/resume.json''
   \<and> fst (generateResumePDF sampleEnv (sampleOptions\<lparr>resume := Some (JStr ''/home/jane/resume.json'')\<rparr>)
          sampleWorld) = Inl (ResumeNotFound ''/home/jane/resume.json'')
   \<and> files (snd (generateResumePDF sampleEnv
          (sampleOptions\<lparr>resume := Some (JStr ''/home/jane/resume.json'')\<rparr>) sampleWorld)) = Map.empty
   \<and> dirs (snd (generateResumePDF sampleEnv
          (sampleOptions\<lparr>resume := Some (JStr ''/home/jane/resume.json'')\<rparr>) sampleWorld)) = {''/tmp''}
   \<and> fst (generateResumeHTML sampleEnv (Some (JStr ''/home/jane/resume.json'')) sampleWorld) =
        Inl (ResumeNotFound ''/home/jane/resume.json'')"
proof -
  have missing: "\<not> pathExists sampleWorld ''/home/jane/resume.json''"
    by (simp add: pathExists_def sampleWorld_def)
  have "files sampleWorld = Map.empty" "dirs sampleWorld = {''/tmp''}"
    by (simp_all add: sampleWorld_def)
  with missing missing_resume_file_not_found [OF missing, of sampleEnv sampleOptions]
  show ?thesis by simp
qed

section \<open>The result and the output directory\<close>

lemma pdf_resolves_to_output:
  assumes run: "generateResumePDF E opts w = (Inr out, w')"
  shows "out = outputPath opts \<and>
         (\<exists>evs. trace w' = trace w @ evs \<and>
            madeDirThenPdf (pathDirname (outputPath opts)) (plainPdfOptions (outputPath opts)) evs)"
proof -
  from run obtain d p w1 html w2 w3 w4 w5 w6 w7 w8 w9 where
    s1: "loadResume E (resume opts) (tmpDirOf opts) w = (Inr (d, p), w1)" and
    s2: "render E d w1 = (Inr html, w2)" and
    s3: "launch E w2 = (Inr (), w3)" and
    s4: "newPage E w3 = (Inr (), w4)" and
    s5: "setContent E html w4 = (Inr (), w5)" and
    s6: "ensureOutputDir E (outputPath opts) w5 = (Inr (), w6)" and
    s7: "pagePdf E html (plainPdfOptions (outputPath opts)) w6 = (Inr (), w7)" and
    s8: "browserClose E w7 = (Inr (), w8)" and
    s9: "cleanupTmp E (resume opts) p w8 = (Inr (), w9)" and
    s10: "emit ConsoleLog w9 = (Inr (), w')" and
    out: "out = outputPath opts"
    by (rule generateResumePDF_steps)
  let ?d = "pathDirname (outputPath opts)" and ?po = "plainPdfOptions (outputPath opts)"
  have "traceExtends w w5"
    using s1 s2 s3 s4 s5 traceExtends_all by (metis alwaysD traceExtends_trans)
  then obtain pre where pre: "trace w5 = trace w @ pre" by (auto simp: traceExtends_def)
  have "traceExtends w7 w'"
    using s8 s9 s10 traceExtends_all by (metis alwaysD traceExtends_trans)
  then obtain post where post: "trace w' = trace w7 @ post" by (auto simp: traceExtends_def)
  from ensureOutputDir_trace [OF s6] pagePdf_trace [OF s7]
  obtain mid where mid: "trace w7 = trace w5 @ mid"
    "mid = [ExistsSync ?d True, PagePdf ?po] \<or> mid = [ExistsSync ?d False, MkdirSync ?d, PagePdf ?po]"
    by auto
  have tr: "trace w' = trace w @ (pre @ mid @ post)" using pre mid(1) post by simp
  have "sublist mid (pre @ mid @ post)" by (rule sublist_appendI)
  with mid(2) have "madeDirThenPdf ?d ?po (pre @ mid @ post)"
    unfolding madeDirThenPdf_def by blast
  with tr out show ?thesis by blast
qed

lemma bands_resolves_to_output:
  assumes run: "generateResumePDFBands E opts w = (Inr out, w')"
  shows "out = outputPath opts \<and>
         (\<exists>evs header. trace w' = trace w @ evs \<and>
            madeDirThenPdf (pathDirname (outputPath opts)) (bandPdfOptions (outputPath opts) header) evs)"
proof -
  from run obtain d p w1 html w2 w3 w4 w5 basics contact w6 name w7 w8 w9 where
    s1: "loadResume E (resume opts) (tmpDirOf opts) w = (Inr (d, p), w1)" and
    s2: "render E d w1 = (Inr html, w2)" and
    s3: "launch E w2 = (Inr (), w3)" and
    s4: "newPage E w3 = (Inr (), w4)" and
    s5: "setContent E (htmlWithHiddenHeader html) w4 = (Inr (), w5)" and
    s6: "ensureOutputDir E (outputPath opts) w5 = (Inr (), w6)" and
    s7: "pagePdf E (htmlWithHiddenHeader html)
       (bandPdfOptions (outputPath opts) (headerTemplate name contact)) w6 = (Inr (), w7)" and
    s8: "browserClose E w7 = (Inr (), w8)" and
    s9: "cleanupTmp E (resume opts) p w8 = (Inr (), w9)" and
    s10: "emit ConsoleLog w9 = (Inr (), w')" and
    out: "out = outputPath opts"
    by (rule generateResumePDFBands_steps)
  let ?d = "pathDirname (outputPath opts)"
    and ?po = "bandPdfOptions (outputPath opts) (headerTemplate name contact)"
  have "traceExtends w w5"
    using s1 s2 s3 s4 s5 traceExtends_all by (metis alwaysD traceExtends_trans)
  then obtain pre where pre: "trace w5 = trace w @ pre" by (auto simp: traceExtends_def)
  have "traceExtends w7 w'"
    using s8 s9 s10 traceExtends_all by (metis alwaysD traceExtends_trans)
  then obtain post where post: "trace w' = trace w7 @ post" by (auto simp: traceExtends_def)
  from ensureOutputDir_trace [OF s6] pagePdf_trace [OF s7]
  obtain mid where mid: "trace w7 = trace w5 @ mid"
    "mid = [ExistsSync ?d True, PagePdf ?po] \<or> mid = [ExistsSync ?d False, MkdirSync ?d, PagePdf ?po]"
    by auto
  have tr: "trace w' = trace w @ (pre @ mid @ post)" using pre mid(1) post by simp
  have "sublist mid (pre @ mid @ post)" by (rule sublist_appendI)
  with mid(2) have "madeDirThenPdf ?d ?po (pre @ mid @ post)"
    unfolding madeDirThenPdf_def by blast
  with tr out show ?thesis by blast
qed

text \<open>
  C8. Every invocation of the PDF generation that returns without an error returns
  exactly the \<open>outputPath\<close> it was given. Among the calls it made, \<open>page.pdf\<close> with that
  path comes right after the check of the destination directory (the \<open>dirname\<close> of
  \<open>outputPath\<close>): either \<open>existsSync\<close> found the directory, or it did not and
  \<open>mkdirSync\<close> made it before the PDF was written. This holds for the export without
  and with the header and footer bands.
\<close>

theorem pdf_resolves_to_output_path:
  "(generateResumePDF E opts w = (Inr out, w') \<longrightarrow>
      out = outputPath opts \<and>
      (\<exists>evs. trace w' = trace w @ evs \<and>
         madeDirThenPdf (pathDirname (outputPath opts)) (plainPdfOptions (outputPath opts)) evs))
   \<and> (generateResumePDFBands E opts w = (Inr out, w') \<longrightarrow>
      out = outputPath opts \<and>
      (\<exists>evs header. trace w' = trace w @ evs \<and>
         madeDirThenPdf (pathDirname (outputPath opts)) (bandPdfOptions (outputPath opts) header) evs))"
  using pdf_resolves_to_output [of E opts w out w'] bands_resolves_to_output [of E opts w out w']
  by blast

theorem pdf_resolves_to_output_path_witness:
  "generateResumePDF sampleEnv sampleOptions sampleWorld = (Inr ''/out/resume.pdf'', sampleWorldAfter)
   \<and> ''/out/resume.pdf'' = outputPath sampleOptions
   \<and> \<not> pathExists sampleWorld ''/out''
   \<and> (\<exists>evs. trace sampleWorldAfter = trace sampleWorld @ evs \<and>
         madeDirThenPdf (pathDirname (outputPath sampleOptions))
           (plainPdfOptions (outputPath sampleOptions)) evs)"
proof -
  have "\<not> pathExists sampleWorld ''/out''" by (simp add: pathExists_def sampleWorld_def)
  with pdf_resolves_to_output_path
    [of sampleEnv sampleOptions sampleWorld "''/out/resume.pdf''" sampleWorldAfter] sample_run
  show ?thesis by blast
qed


section \<open>The value null\<close>

lemma bindIO_assoc: "bindIO (bindIO m g) k = bindIO m (\<lambda>x. bindIO (g x) k)"
  by (rule ext) (auto simp: bindIO_def split: prod.splits sum.splits)

lemma first_call_existsSync:
  assumes "\<And>found. always traceExtends (f found)"
  shows "\<exists>evs. trace (snd (catchIO (bindIO (existsSync p) f) rethrow w)) =
           trace w @ ExistsSync p (pathExists w p) # evs"
proof -
  let ?w0 = "w\<lparr>trace := trace w @ [ExistsSync p (pathExists w p)]\<rparr>"
  let ?rest = "catchIO (f (pathExists w p)) rethrow"
  have eq: "catchIO (bindIO (existsSync p) f) rethrow w = ?rest ?w0"
    by (simp add: catchIO_def bindIO_def existsSync_def)
  have "always traceExtends ?rest"
    using assms by (intro traceExtends_catch traceExtends_rethrow)
  then have "traceExtends ?w0 (snd (?rest ?w0))"
    by (metis alwaysD prod.collapse)
  then obtain evs where "trace (snd (?rest ?w0)) = trace ?w0 @ evs"
    by (auto simp: traceExtends_def)
  with eq show ?thesis by simp
qed

lemma loadResume_object_branch:
  assumes "typeof r = ''object''"
  shows "loadResume E r t =
           bindIO (existsSync t) (\<lambda>found.
           bindIO (if \<not> found then mkdirSync E t else returnIO ()) (\<lambda>_.
           bindIO (writeFileSync E (transientPath t (dateNow E)) (jsonStringify E r)) (\<lambda>_.
             returnIO (r, transientPath t (dateNow E)))))"
  using assms by (simp add: loadResume_def Let_def transientPath_def)

lemma object_branch_pdf:
  assumes "typeof (resume opts) = ''object''"
  shows "\<exists>evs. trace (snd (generateResumePDF E opts w)) =
           trace w @ ExistsSync (tmpDirOf opts) (pathExists w (tmpDirOf opts)) # evs"
  unfolding generateResumePDF_def loadResume_object_branch [OF assms] bindIO_assoc
  by (rule first_call_existsSync, intro traceExtends_bind always_case_prod)
     (simp_all add: traceExtends_all)

lemma object_branch_bands:
  assumes "typeof (resume opts) = ''object''"
  shows "\<exists>evs. trace (snd (generateResumePDFBands E opts w)) =
           trace w @ ExistsSync (tmpDirOf opts) (pathExists w (tmpDirOf opts)) # evs"
  unfolding generateResumePDFBands_def loadResume_object_branch [OF assms] bindIO_assoc
  by (rule first_call_existsSync, intro traceExtends_bind always_case_prod)
     (simp_all add: traceExtends_all)

text \<open>
  C9. \<open>typeof null\<close> is \<open>object\<close>, so for the input \<open>null\<close> neither the PDF generation
  (without or with the bands) nor the HTML generation throws the rejection
  \<open>Resume must be either a JSON object or a file path string\<close>. The PDF generation
  goes down the object branch: its first call is \<open>existsSync\<close> on the temporary
  directory, the first statement of that branch after the name of the transient file is
  built. The HTML generation hands \<open>null\<close> to \<open>theme.render\<close>, and its result is what
  the renderer returns or throws.
\<close>

theorem null_resume_not_rejected:
  "typeof (Some JNull) = ''object''
   \<and> fst (generateResumePDF E (opts\<lparr>resume := Some JNull\<rparr>) w) \<noteq> Inl ResumeRejected
   \<and> fst (generateResumePDFBands E (opts\<lparr>resume := Some JNull\<rparr>) w) \<noteq> Inl ResumeRejected
   \<and> fst (generateResumeHTML E (Some JNull) w) \<noteq> Inl ResumeRejected
   \<and> (\<exists>evs. trace (snd (generateResumePDF E (opts\<lparr>resume := Some JNull\<rparr>) w)) =
         trace w @ ExistsSync (tmpDirOf opts) (pathExists w (tmpDirOf opts)) # evs)
   \<and> (\<exists>evs. trace (snd (generateResumePDFBands E (opts\<lparr>resume := Some JNull\<rparr>) w)) =
         trace w @ ExistsSync (tmpDirOf opts) (pathExists w (tmpDirOf opts)) # evs)
   \<and> fst (generateResumeHTML E (Some JNull) w) =
        (case themeRender E (Some JNull) of None \<Rightarrow> Inl RenderFailed | Some html \<Rightarrow> Inr html)"
proof -
  let ?opts = "opts\<lparr>resume := Some JNull\<rparr>"
  have ty: "typeof (resume ?opts) = ''object''" by simp
  have tmp: "tmpDirOf ?opts = tmpDirOf opts" by (simp add: tmpDirOf_def)
  have html: "fst (generateResumeHTML E (Some JNull) w) =
        (case themeRender E (Some JNull) of None \<Rightarrow> Inl RenderFailed | Some html \<Rightarrow> Inr html)"
    by (simp add: generateResumeHTML_def render_def io_defs split: option.splits)
  show ?thesis
    using neverD [OF never_rejected_pdf [OF ty], of E w]
      neverD [OF never_rejected_bands [OF ty], of E w]
      neverD [OF never_rejected_html, of "Some JNull" E w]
      object_branch_pdf [OF ty, of E w] object_branch_bands [OF ty, of E w] html
    by (simp add: tmp)
qed

section \<open>The names of transient files\<close>

lemma digit_inj:
  assumes "d < 10" "e < 10" "''0123456789'' ! d = ''0123456789'' ! e"
  shows "d = e"
proof -
  have "distinct ''0123456789''" by simp
  moreover have "d < length ''0123456789''" "e < length ''0123456789''" using assms by simp_all
  ultimately show ?thesis using assms(3) by (simp only: nth_eq_iff_index_eq)
qed

lemma decimal_nonempty: "decimal n \<noteq> []"
  by (subst decimal.simps) simp

lemma decimal_inj: "decimal m = decimal n \<Longrightarrow> m = n"
proof (induction m arbitrary: n rule: decimal.induct)
  case (1 m)
  show ?case
  proof (cases "m < 10")
    case True
    note m = this
    show ?thesis
    proof (cases "n < 10")
      case True
      with m "1.prems" have "''0123456789'' ! m = ''0123456789'' ! n"
        by (simp add: decimal.simps [of m] decimal.simps [of n])
      with m True show ?thesis by (rule digit_inj)
    next
      case False
      with m "1.prems" decimal_nonempty [of "n div 10"] show ?thesis
        by (simp add: decimal.simps [of m] decimal.simps [of n])
    qed
  next
    case False
    note m = this
    show ?thesis
    proof (cases "n < 10")
      case True
      with m "1.prems" decimal_nonempty [of "m div 10"] show ?thesis
        by (simp add: decimal.simps [of m] decimal.simps [of n])
    next
      case False
      with m "1.prems" have eq: "decimal (m div 10) = decimal (n div 10)"
        and dg: "''0123456789'' ! (m mod 10) = ''0123456789'' ! (n mod 10)"
        by (simp_all add: decimal.simps [of m] decimal.simps [of n])
      from "1.IH" [OF m eq] have "m div 10 = n div 10" .
      moreover have "m mod 10 = n mod 10" using dg by (intro digit_inj) simp_all
      ultimately show ?thesis by (metis div_mult_mod_eq)
    qed
  qed
qed

lemma decimal_no_slash: "CHR ''/'' \<notin> set (decimal n)"
proof (induction n rule: decimal.induct)
  case (1 n)
  have digit: "''0123456789'' ! k \<noteq> CHR ''/''" if "k < 10" for k :: nat
  proof -
    from that have "''0123456789'' ! k \<in> set ''0123456789''" by (intro nth_mem) simp
    then show ?thesis by auto
  qed
  show ?case
  proof (cases "n < 10")
    case True
    then show ?thesis using digit [of n] by (simp add: decimal.simps [of n])
  next
    case False
    then show ?thesis using "1.IH" digit [of "n mod 10"] by (simp add: decimal.simps [of n])
  qed
qed

lemma splitSlash_nonempty: "splitSlash s \<noteq> []"
  by (induction s) (auto split: list.splits)

lemma splitSlash_no_slash: "CHR ''/'' \<notin> set s \<Longrightarrow> splitSlash s = [s]"
  by (induction s) auto

lemma splitSlash_append: "splitSlash (a @ CHR ''/'' # b) = splitSlash a @ splitSlash b"
  using splitSlash_nonempty by (induction a) (auto split: list.splits)

lemma joinSlash_snoc: "joinSlash (st @ [s]) = (if st = [] then s else joinSlash st @ ''/'' @ s)"
  by (induction st rule: joinSlash.induct) auto

lemma transientName_plain:
  "CHR ''/'' \<notin> set (transientName t)" "transientName t \<noteq> []"
  "transientName t \<noteq> ''.''" "transientName t \<noteq> ''..''"
  using decimal_no_slash [of t] by (auto simp: transientName_def)

lemma pathNormalize_name:
  assumes "CHR ''/'' \<notin> set s" "s \<noteq> []" "s \<noteq> ''.''" "s \<noteq> ''..''"
  shows "pathNormalize s = s"
proof -
  have "hd s \<noteq> CHR ''/''" "last s \<noteq> CHR ''/''" using assms(1,2)
    by (metis hd_in_set, metis last_in_set)
  then show ?thesis
    using assms
    by (simp add: pathNormalize_def Let_def normalizeString_def splitSlash_no_slash normStep_def)
qed

lemma pathNormalize_dir_name:
  assumes "CHR ''/'' \<notin> set s" "s \<noteq> []" "s \<noteq> ''.''" "s \<noteq> ''..''" "d \<noteq> []"
  shows "pathNormalize (d @ CHR ''/'' # s) =
           (if hd d = CHR ''/'' then ''/'' else []) @
           (let st = foldl (normStep (hd d \<noteq> CHR ''/'')) [] (splitSlash d)
            in if st = [] then [] else joinSlash st @ ''/'') @ s"
proof -
  let ?p = "d @ CHR ''/'' # s"
  have l: "last ?p \<noteq> CHR ''/''"
    using assms(1,2) by (metis last_in_set last_appendR last_ConsR list.distinct(1))
  have h: "hd ?p = hd d" using assms(5) by simp
  have ne: "?p \<noteq> []" by simp
  have sp: "splitSlash ?p = splitSlash d @ [s]"
    using assms(1) by (simp add: splitSlash_append splitSlash_no_slash)
  have st: "\<And>b xs. normStep b xs s = xs @ [s]"
    using assms by (simp add: normStep_def)
  have q: "\<And>b. normalizeString ?p b =
      (let st = foldl (normStep b) [] (splitSlash d) in if st = [] then [] else joinSlash st @ ''/'') @ s"
    by (simp add: normalizeString_def sp st joinSlash_snoc Let_def)
  have qne: "\<And>b. normalizeString ?p b \<noteq> []"
    using assms(2) by (simp add: q Let_def)
  show ?thesis
    unfolding pathNormalize_def Let_def h
    using ne l qne by (simp add: q Let_def)
qed

text \<open>The transient path is a text that depends on the directory only, then the name.\<close>

lemma transientPath_shape: "\<exists>x. \<forall>t. transientPath d t = x @ transientName t"
proof (cases "d = []")
  case True
  have "\<forall>t. transientPath d t = [] @ transientName t"
  proof
    fix t
    have "pathJoin d (transientName t) = pathNormalize (transientName t)"
      using True transientName_plain(2) [of t] by (simp add: pathJoin_def)
    also have "\<dots> = transientName t" by (rule pathNormalize_name [OF transientName_plain])
    finally show "transientPath d t = [] @ transientName t" by (simp add: transientPath_def)
  qed
  then show ?thesis by blast
next
  case False
  let ?x = "(if hd d = CHR ''/'' then ''/'' else []) @
           (let st = foldl (normStep (hd d \<noteq> CHR ''/'')) [] (splitSlash d)
            in if st = [] then [] else joinSlash st @ ''/'')"
  have "\<forall>t. transientPath d t = ?x @ transientName t"
  proof
    fix t
    have "pathJoin d (transientName t) = pathNormalize (d @ CHR ''/'' # transientName t)"
      using False transientName_plain(2) [of t] by (simp add: pathJoin_def)
    also have "\<dots> = ?x @ transientName t"
      using pathNormalize_dir_name [OF transientName_plain False, of t] by (simp add: Let_def)
    finally show "transientPath d t = ?x @ transientName t"
      by (simp add: transientPath_def)
  qed
  then show ?thesis by blast
qed

lemma transientPath_inj: "transientPath d t1 = transientPath d t2 \<longleftrightarrow> t1 = t2"
proof
  assume same: "transientPath d t1 = transientPath d t2"
  from transientPath_shape [of d] obtain x where "\<forall>t. transientPath d t = x @ transientName t"
    by blast
  with same have "transientName t1 = transientName t2" by simp
  then have "decimal t1 = decimal t2" by (simp add: transientName_def)
  then show "t1 = t2" by (rule decimal_inj)
qed simp


lemma loadResume_sample:
  "loadResume sampleEnv (Some janeDoe) ''/tmp'' sampleWorld =
     (Inr (Some janeDoe, sampleTransient),
      \<lparr>files = [sampleTransient \<mapsto> ''{}''], dirs = {''/tmp''}, openBrowsers = 0,
       trace = [ExistsSync ''/tmp'' True, WriteFileSync sampleTransient ''{}'']\<rparr>)"
  by (simp add: loadResume_def io_defs fs_defs Let_def sample_pathJoin sampleEnv_def
      sampleWorld_def janeDoe_def sampleTransient_def)

lemma loadResume_sample_again:
  "fst (loadResume sampleEnv (Some johnRoe) ''/tmp''
     \<lparr>files = [sampleTransient \<mapsto> ''{}''], dirs = {''/tmp''}, openBrowsers = 0,
      trace = [ExistsSync ''/tmp'' True, WriteFileSync sampleTransient ''{}'']\<rparr>) =
   Inr (Some johnRoe, sampleTransient)"
  by (simp add: loadResume_def io_defs fs_defs Let_def sample_pathJoin sampleEnv_def
      johnRoe_def sampleTransient_def)

text \<open>
  C5. The specification: two invocations with in-memory resume objects and the same
  temporary directory never generate the same transient file name, however close in
  time they start. The name is \<open>resume_<Date.now()>.json\<close> and nothing else goes into it, so two
  invocations that read the same millisecond from the clock generate the same name.
  Here two different resumes are loaded with the clock at 1764000000000, the second
  while the transient file of the first is still there: both get the path
  \<open>/tmp/resume_1764000000000.json\<close>.
\<close>

theorem transient_names_collide_in_same_millisecond:
  "janeDoe \<noteq> johnRoe
   \<and> fst (loadResume sampleEnv (Some janeDoe) ''/tmp'' sampleWorld) =
       Inr (Some janeDoe, ''/tmp/resume_1764000000000.json'')
   \<and> fst (loadResume sampleEnv (Some johnRoe) ''/tmp''
            (snd (loadResume sampleEnv (Some janeDoe) ''/tmp'' sampleWorld))) =
       Inr (Some johnRoe, ''/tmp/resume_1764000000000.json'')"
  using loadResume_sample_again
  by (simp add: loadResume_sample) (simp add: janeDoe_def johnRoe_def sampleTransient_def)

text \<open>
  C5, as the code has it. Two invocations with in-memory resume objects and the same
  temporary directory that get as far as writing their transient file use the path
  made of that directory and the clock reading of the invocation; the two paths are
  equal exactly when the two clock readings (\<open>Date.now()\<close>, in milliseconds) are
  equal, and distinct whenever the readings differ.
\<close>

theorem transient_names_differ_iff_clock_differs:
  assumes "typeof r1 = ''object''" "typeof r2 = ''object''"
    and "loadResume E1 r1 tmp w1 = (Inr (d1, p1), w1')"
    and "loadResume E2 r2 tmp w2 = (Inr (d2, p2), w2')"
  shows "p1 = transientPath tmp (dateNow E1) \<and> p2 = transientPath tmp (dateNow E2) \<and>
         (p1 = p2 \<longleftrightarrow> dateNow E1 = dateNow E2)"
  using loadResume_object [OF assms(1,3)] loadResume_object [OF assms(2,4)]
  by (simp add: transientPath_inj)

theorem transient_names_differ_iff_clock_differs_witness:
  "typeof (Some janeDoe) = ''object'' \<and> typeof (Some johnRoe) = ''object''
   \<and> fst (loadResume sampleEnv (Some janeDoe) ''/tmp'' sampleWorld) =
       Inr (Some janeDoe, ''/tmp/resume_1764000000000.json'')
   \<and> fst (loadResume (sampleEnv\<lparr>dateNow := 1764000000001\<rparr>) (Some johnRoe) ''/tmp'' sampleWorld) =
       Inr (Some johnRoe, ''/tmp/resume_1764000000001.json'')
   \<and> ''/tmp/resume_1764000000000.json'' \<noteq> ''/tmp/resume_1764000000001.json''"
proof -
  let ?late = "sampleEnv\<lparr>dateNow := 1764000000001\<rparr>"
  have t1: "typeof (Some janeDoe) = ''object''" and t2: "typeof (Some johnRoe) = ''object''"
    by (simp_all add: janeDoe_def johnRoe_def)
  have later: "pathJoin ''/tmp'' (transientName 1764000000001) = ''/tmp/resume_1764000000001.json''"
    by (simp add: transientName_def pathJoin_def pathNormalize_def normalizeString_def
        normStep_def decimal.simps)
  have r1: "fst (loadResume sampleEnv (Some janeDoe) ''/tmp'' sampleWorld) =
      Inr (Some janeDoe, ''/tmp/resume_1764000000000.json'')"
    by (simp add: loadResume_sample) (simp add: sampleTransient_def)
  have r2: "fst (loadResume ?late (Some johnRoe) ''/tmp'' sampleWorld) =
      Inr (Some johnRoe, ''/tmp/resume_1764000000001.json'')"
    by (simp add: loadResume_def io_defs fs_defs Let_def later sampleEnv_def sampleWorld_def
        johnRoe_def ancestors_def)
  have run1: "loadResume sampleEnv (Some janeDoe) ''/tmp'' sampleWorld =
      (Inr (Some janeDoe, ''/tmp/resume_1764000000000.json''),
       snd (loadResume sampleEnv (Some janeDoe) ''/tmp'' sampleWorld))"
    using r1 by (metis prod.collapse)
  have run2: "loadResume ?late (Some johnRoe) ''/tmp'' sampleWorld =
      (Inr (Some johnRoe, ''/tmp/resume_1764000000001.json''),
       snd (loadResume ?late (Some johnRoe) ''/tmp'' sampleWorld))"
    using r2 by (metis prod.collapse)
  have clocks: "dateNow sampleEnv \<noteq> dateNow ?late" by (simp add: sampleEnv_def)
  from transient_names_differ_iff_clock_differs [OF t1 t2 run1 run2] clocks
  have "''/tmp/resume_1764000000000.json'' \<noteq> ''/tmp/resume_1764000000001.json''" by blast
  with t1 t2 r1 r2 show ?thesis by blast
qed


section \<open>What the rendering engine is given\<close>

lemma render_Inr: "render E d w = (Inr html, w') \<Longrightarrow> themeRender E d = Some html"
  by (auto simp: render_def io_defs split: option.splits)

lemma setContent_trace:
  "setContent E html w = (Inr u, w') \<Longrightarrow> trace w' = trace w @ [SetContent html]"
  by (auto simp: setContent_def io_defs split: if_splits)

lemma noSetContent_trans: "noSetContent a b \<Longrightarrow> noSetContent b c \<Longrightarrow> noSetContent a c"
  by (auto simp: noSetContent_def)

lemmas noSetContent_bind = always_bind [of noSetContent, OF noSetContent_trans]

lemma noSetContent_steps:
  "always noSetContent (existsSync p)"
  "always noSetContent (readFileSync E p)"
  "always noSetContent (mkdirSync E p)"
  "always noSetContent (writeFileSync E p text)"
  "always noSetContent (unlinkSync E p)"
  "always noSetContent (render E d)"
  "always noSetContent (launch E)"
  "always noSetContent (newPage E)"
  "always noSetContent (pagePdf E html po)"
  "always noSetContent (browserClose E)"
  "always noSetContent (emit ConsoleLog)"
  "always noSetContent (returnIO x)"
  "always noSetContent (throwIO e)"
  "always noSetContent (liftE v)"
  by (auto simp: always_def noSetContent_def io_defs fs_defs engine_defs
      split: prod.splits sum.splits option.splits if_splits)

lemma noSetContent_compound:
  "always noSetContent (loadResume E r t)"
  "always noSetContent (ensureOutputDir E out)"
  "always noSetContent (cleanupTmp E r p)"
  by (auto simp: loadResume_def ensureOutputDir_def cleanupTmp_def Let_def noSetContent_steps
      split: option.splits intro!: noSetContent_bind)

text \<open>What \<open>resumeData\<close> is when loading succeeded.\<close>

lemma loadResume_data:
  assumes "loadResume E r t w = (Inr (d, p), w1)"
  shows "(typeof r = ''object'' \<longrightarrow> d = r) \<and>
         (typeof r = ''string'' \<longrightarrow>
            (\<exists>text data. files w (stringValue r) = Some text \<and> jsonParse E text = Some data \<and>
               d = Some data))"
  using assms
  by (auto simp: loadResume_def Let_def bindIO_Inr io_defs fs_defs split: if_splits option.splits
      intro: sym)

lemma bands_content_is_hidden_header:
  assumes "generateResumePDFBands E opts w = (Inr out, w')"
  shows "\<exists>rendered evs.
           (typeof (resume opts) = ''object'' \<longrightarrow> themeRender E (resume opts) = Some rendered) \<and>
           (typeof (resume opts) = ''string'' \<longrightarrow>
              (\<exists>text data. files w (stringValue (resume opts)) = Some text \<and>
                 jsonParse E text = Some data \<and> themeRender E (Some data) = Some rendered)) \<and>
           trace w' = trace w @ evs \<and>
           SetContent (htmlWithHiddenHeader rendered) \<in> set evs \<and>
           (\<forall>c. SetContent c \<in> set evs \<longrightarrow> c = htmlWithHiddenHeader rendered)"
proof -
  from assms obtain d p w1 html w2 w3 w4 w5 basics contact w6 name w7 w8 w9 where
    s1: "loadResume E (resume opts) (tmpDirOf opts) w = (Inr (d, p), w1)" and
    s2: "render E d w1 = (Inr html, w2)" and
    s3: "launch E w2 = (Inr (), w3)" and
    s4: "newPage E w3 = (Inr (), w4)" and
    s5: "setContent E (htmlWithHiddenHeader html) w4 = (Inr (), w5)" and
    s6: "ensureOutputDir E (outputPath opts) w5 = (Inr (), w6)" and
    s7: "pagePdf E (htmlWithHiddenHeader html)
       (bandPdfOptions (outputPath opts) (headerTemplate name contact)) w6 = (Inr (), w7)" and
    s8: "browserClose E w7 = (Inr (), w8)" and
    s9: "cleanupTmp E (resume opts) p w8 = (Inr (), w9)" and
    s10: "emit ConsoleLog w9 = (Inr (), w')"
    by (rule generateResumePDFBands_steps)
  note quiet = noSetContent_steps noSetContent_compound
  have "noSetContent w w4"
    using s1 s2 s3 s4 quiet by (metis alwaysD noSetContent_trans)
  then obtain pre where pre: "trace w4 = trace w @ pre" "\<forall>c. SetContent c \<notin> set pre"
    by (auto simp: noSetContent_def)
  have "noSetContent w5 w'"
    using s6 s7 s8 s9 s10 quiet by (metis alwaysD noSetContent_trans)
  then obtain post where post: "trace w' = trace w5 @ post" "\<forall>c. SetContent c \<notin> set post"
    by (auto simp: noSetContent_def)
  let ?evs = "pre @ [SetContent (htmlWithHiddenHeader html)] @ post"
  have tr: "trace w' = trace w @ ?evs"
    using pre(1) post(1) setContent_trace [OF s5] by simp
  have mem: "SetContent (htmlWithHiddenHeader html) \<in> set ?evs" by simp
  have only: "\<forall>c. SetContent c \<in> set ?evs \<longrightarrow> c = htmlWithHiddenHeader html"
    using pre(2) post(2) by auto
  have rendered: "themeRender E d = Some html" using s2 by (rule render_Inr)
  from loadResume_data [OF s1] rendered
  have src: "(typeof (resume opts) = ''object'' \<longrightarrow> themeRender E (resume opts) = Some html) \<and>
         (typeof (resume opts) = ''string'' \<longrightarrow>
            (\<exists>text data. files w (stringValue (resume opts)) = Some text \<and>
               jsonParse E text = Some data \<and> themeRender E (Some data) = Some html))"
    by auto
  from src tr mem only show ?thesis by blast
qed

lemma sample_run_bands:
  "generateResumePDFBands sampleEnv sampleOptions sampleWorld =
     (Inr ''/out/resume.pdf'',
      snd (generateResumePDFBands sampleEnv sampleOptions sampleWorld))"
proof -
  have "fst (generateResumePDFBands sampleEnv sampleOptions sampleWorld) = Inr ''/out/resume.pdf''"
    by (simp add: generateResumePDFBands_def run_defs basicsOf_def displayName_def strip_defs
        htmlWithHiddenHeader_def styleTag_def)
  then show ?thesis by (metis prod.collapse)
qed

text \<open>
  C10. The header suppression is \<open>html.replace('<style>', ...)\<close>. When the rendered HTML
  has no \<open><style>\<close> it is left as it is, so the document reaches the rendering engine
  unchanged and its header is not hidden. Otherwise, when \<open>pre\<close> is the text before the
  first \<open><style>\<close> (no occurrence starts earlier), a line break, the rule
  \<open>.resume-header { display: none !important; }\<close> behind four spaces and another line
  break are put in right after that tag, and the text after it, later style tags
  included, stays as it is. A successful export with bands calls \<open>page.setContent\<close>
  once, with the result of this replacement on what \<open>theme.render\<close> returned for the
  resume: the object that was passed, or the JSON read from the file that was named.
\<close>

theorem hidden_header_first_style_only:
  "(\<not> sublist ''<style>'' html \<longrightarrow> htmlWithHiddenHeader html = html)
   \<and> ((\<forall>pre' post'. pre @ ''<style>'' @ post = pre' @ ''<style>'' @ post' \<longrightarrow> length pre \<le> length pre')
        \<longrightarrow> htmlWithHiddenHeader (pre @ ''<style>'' @ post) =
              pre @ ''<style>'' @ [CHR 0x0A] @ ''    .resume-header { display: none !important; }'' @
              [CHR 0x0A] @ post)
   \<and> (generateResumePDFBands E opts w = (Inr out, w') \<longrightarrow>
        (\<exists>rendered evs.
           (typeof (resume opts) = ''object'' \<longrightarrow> themeRender E (resume opts) = Some rendered) \<and>
           (typeof (resume opts) = ''string'' \<longrightarrow>
              (\<exists>text data. files w (stringValue (resume opts)) = Some text \<and>
                 jsonParse E text = Some data \<and> themeRender E (Some data) = Some rendered)) \<and>
           trace w' = trace w @ evs \<and>
           SetContent (htmlWithHiddenHeader rendered) \<in> set evs \<and>
           (\<forall>c. SetContent c \<in> set evs \<longrightarrow> c = htmlWithHiddenHeader rendered)))"
proof (intro conjI impI)
  assume "\<not> sublist ''<style>'' html"
  then show "htmlWithHiddenHeader html = html"
    unfolding htmlWithHiddenHeader_def styleTag_def by (rule replaceFirst_absent)
next
  assume first: "\<forall>pre' post'. pre @ ''<style>'' @ post = pre' @ ''<style>'' @ post' \<longrightarrow>
      length pre \<le> length pre'"
  have "''<style>'' \<noteq> []" by simp
  from replaceFirst_first [OF this first, of hiddenHeaderStyle]
  show "htmlWithHiddenHeader (pre @ ''<style>'' @ post) =
      pre @ ''<style>'' @ [CHR 0x0A] @ ''    .resume-header { display: none !important; }'' @
      [CHR 0x0A] @ post"
    by (simp add: htmlWithHiddenHeader_def hiddenHeaderStyle_def hiddenHeaderRule_def styleTag_def
        nl_def)
next
  assume "generateResumePDFBands E opts w = (Inr out, w')"
  then show "\<exists>rendered evs.
           (typeof (resume opts) = ''object'' \<longrightarrow> themeRender E (resume opts) = Some rendered) \<and>
           (typeof (resume opts) = ''string'' \<longrightarrow>
              (\<exists>text data. files w (stringValue (resume opts)) = Some text \<and>
                 jsonParse E text = Some data \<and> themeRender E (Some data) = Some rendered)) \<and>
           trace w' = trace w @ evs \<and>
           SetContent (htmlWithHiddenHeader rendered) \<in> set evs \<and>
           (\<forall>c. SetContent c \<in> set evs \<longrightarrow> c = htmlWithHiddenHeader rendered)"
    by (rule bands_content_is_hidden_header)
qed

theorem hidden_header_first_style_only_witness:
  "htmlWithHiddenHeader ''<html><body>no style</body></html>'' = ''<html><body>no style</body></html>''
   \<and> htmlWithHiddenHeader (''<html>'' @ ''<style>'' @ ''h1{}</style><style>p{}</style></html>'') =
       ''<html>'' @ ''<style>'' @ [CHR 0x0A] @ ''    .resume-header { display: none !important; }'' @
       [CHR 0x0A] @ ''h1{}</style><style>p{}</style></html>''
   \<and> generateResumePDFBands sampleEnv sampleOptions sampleWorld =
       (Inr ''/out/resume.pdf'', snd (generateResumePDFBands sampleEnv sampleOptions sampleWorld))
   \<and> SetContent (''<html>'' @ ''<style>'' @ [CHR 0x0A] @
          ''    .resume-header { display: none !important; }'' @ [CHR 0x0A] @ ''h1{}</style></html>'')
       \<in> set (trace (snd (generateResumePDFBands sampleEnv sampleOptions sampleWorld)))"
proof -
  have "\<not> sublist ''<style>'' ''<html><body>no style</body></html>''"
    by (simp add: sublist_Cons_right)
  with hidden_header_first_style_only [of "''<html><body>no style</body></html>''"]
  have unchanged:
    "htmlWithHiddenHeader ''<html><body>no style</body></html>'' = ''<html><body>no style</body></html>''"
    by blast
  have ne: "''<style>'' \<noteq> []" by simp
  have no: "\<not> sublist ''<style>'' (''<html>'' @ butlast ''<style>'')"
    by (simp add: sublist_Cons_right)
  have first: "\<forall>pre' post'. ''<html>'' @ ''<style>'' @ post = pre' @ ''<style>'' @ post'
      \<longrightarrow> length ''<html>'' \<le> length pre'" for post
    using no_earlier_occurrence [OF ne no] by blast
  from first [of "''h1{}</style><style>p{}</style></html>''"]
    hidden_header_first_style_only [of _ "''<html>''" "''h1{}</style><style>p{}</style></html>''"]
  have first_only:
    "htmlWithHiddenHeader (''<html>'' @ ''<style>'' @ ''h1{}</style><style>p{}</style></html>'') =
       ''<html>'' @ ''<style>'' @ [CHR 0x0A] @ ''    .resume-header { display: none !important; }'' @
       [CHR 0x0A] @ ''h1{}</style><style>p{}</style></html>''"
    by blast
  from first [of "''h1{}</style></html>''"]
    hidden_header_first_style_only [of _ "''<html>''" "''h1{}</style></html>''"]
  have sample_hidden:
    "htmlWithHiddenHeader (''<html>'' @ ''<style>'' @ ''h1{}</style></html>'') =
       ''<html>'' @ ''<style>'' @ [CHR 0x0A] @ ''    .resume-header { display: none !important; }'' @
       [CHR 0x0A] @ ''h1{}</style></html>''"
    by blast
  have ty: "typeof (resume sampleOptions) = ''object''"
    by (simp add: sampleOptions_def janeDoe_def)
  have rendered_is: "themeRender sampleEnv d = Some rendered \<Longrightarrow>
      rendered = ''<html>'' @ ''<style>'' @ ''h1{}</style></html>''" for d rendered
    by (auto simp: sampleEnv_def)
  from hidden_header_first_style_only [of _ _ _ sampleEnv sampleOptions sampleWorld
      "''/out/resume.pdf''" "snd (generateResumePDFBands sampleEnv sampleOptions sampleWorld)"]
    sample_run_bands ty
  obtain rendered evs where
    r: "themeRender sampleEnv (resume sampleOptions) = Some rendered" and
    t: "trace (snd (generateResumePDFBands sampleEnv sampleOptions sampleWorld)) =
          trace sampleWorld @ evs" and
    m: "SetContent (htmlWithHiddenHeader rendered) \<in> set evs"
    by blast
  have "trace sampleWorld = []" by (simp add: sampleWorld_def)
  with t m rendered_is [OF r] sample_hidden
  have "SetContent (''<html>'' @ ''<style>'' @ [CHR 0x0A] @
          ''    .resume-header { display: none !important; }'' @ [CHR 0x0A] @ ''h1{}</style></html>'')
       \<in> set (trace (snd (generateResumePDFBands sampleEnv sampleOptions sampleWorld)))"
    by simp
  with unchanged first_only sample_run_bands show ?thesis by blast
qed

end
